theory Spec2Isabelle
  imports Main "HOL-Library.Finite_Map"
begin

section \<open>Data model\<close>

text \<open>
  A Go \<^verbatim>\<open>error\<close> value: the text returned by \<^verbatim>\<open>Error()\<close> and the result of
  \<^verbatim>\<open>errors.Unwrap\<close> (\<open>None\<close> is \<^verbatim>\<open>nil\<close>: the error wraps no cause).
\<close>

datatype error = MkError (message: string) (Unwrap: "error option")

text \<open>
  A value of type \<^verbatim>\<open>interface{}\<close> stored in a view context: the nil interface, a
  string, a slice of strings, or any other value.
\<close>

datatype 'a val = VNil | VStr string | VStrs "string list" | VOther 'a

text \<open>
  \<^verbatim>\<open>type D map[string]interface{}\<close> (render.go) and \<^verbatim>\<open>type M map[string]interface{}\<close>
  (the LayoutRenderer file). \<open>None\<close> is the nil map, which can be ranged over and read
  but not assigned to.
\<close>

type_synonym 'a D = "(string, 'a val) fmap option"

text \<open>
  What a data provider and the template engine can act on: the bytes written to the
  \<^verbatim>\<open>http.ResponseWriter\<close> so far, and everything else that belongs to the request.
\<close>

record 'x world =
  body :: string
  other :: 'x

text \<open>\<^verbatim>\<open>type Data func(w http.ResponseWriter, r *http.Request) (D, error)\<close>\<close>

type_synonym ('a, 'x) Data = "'x world \<Rightarrow> ('a D \<times> error option) \<times> 'x world"

text \<open>
  \<^verbatim>\<open>(*goview.ViewEngine).Render(w, statusCode, name, data) error\<close>, the template engine's
  render call.
\<close>

type_synonym ('a, 'x) ViewEngine =
  "'x world \<Rightarrow> nat \<Rightarrow> string \<Rightarrow> 'a D \<Rightarrow> error option \<times> 'x world"

text \<open>The fields of \<^verbatim>\<open>goview.Config\<close> that \<^verbatim>\<open>New\<close> sets.\<close>

record 'f Config =
  Root :: string
  Extension_cfg :: string
  Master :: string
  Partials :: "string list"
  DisableCache_cfg :: bool
  Funcs :: "(string, 'f) fmap"

text \<open>
  The library functions the package calls, which are not part of the repository:
  the rune case tables of package \<^verbatim>\<open>unicode\<close>, the formatting of package \<^verbatim>\<open>fmt\<close>
  (\<open>fmt_verb_s v\<close> is \<^verbatim>\<open>fmt.Sprintf("%s", v)\<close> for an operand that is not a string,
  \<open>fmt_Sprintf f\<close> is \<^verbatim>\<open>fmt.Sprintf(f)\<close> with no operands), \<^verbatim>\<open>sprig.FuncMap()\<close>,
  \<^verbatim>\<open>ioutil.ReadDir\<close> (the entry names, in listing order, or the error) and
  \<^verbatim>\<open>goview.New\<close>. A string is the list of its runes; the text is taken to be valid
  UTF-8, so that \<^verbatim>\<open>[]rune(str)\<close> and \<^verbatim>\<open>string(tmp)\<close> lose nothing.
\<close>

record ('a, 'f, 'x) ext =
  unicode_ToLower :: "char \<Rightarrow> char"
  unicode_ToUpper :: "char \<Rightarrow> char"
  fmt_verb_s :: "'a val \<Rightarrow> string"
  fmt_Sprintf :: "string \<Rightarrow> string"
  sprig_FuncMap :: "(string, 'f) fmap"
  ioutil_ReadDir :: "string \<Rightarrow> error + string list"
  goview_New :: "'f Config \<Rightarrow> ('a, 'x) ViewEngine"

datatype panic = NilMapAssignment | NilPointerDereference

section \<open>Shared helpers\<close>

text \<open>\<^verbatim>\<open>strings.ToLower\<close>: every rune is mapped by \<^verbatim>\<open>unicode.ToLower\<close>.\<close>

definition strings_ToLower :: "('a, 'f, 'x) ext \<Rightarrow> string \<Rightarrow> string" where
  "strings_ToLower X s = map (unicode_ToLower X) s"

text \<open>\<^verbatim>\<open>func first(str string) string\<close>, the same in both files.\<close>

definition first :: "('a, 'f, 'x) ext \<Rightarrow> string \<Rightarrow> string" where
  "first X str =
     (if length str = 0 then ''''
      else str[0 := unicode_ToUpper X (str ! 0)])"

text \<open>\<^verbatim>\<open>strings.HasSuffix\<close> and \<^verbatim>\<open>strings.TrimSuffix\<close>.\<close>

definition strings_HasSuffix :: "string \<Rightarrow> string \<Rightarrow> bool" where
  "strings_HasSuffix s suffix =
     (length s \<ge> length suffix \<and> drop (length s - length suffix) s = suffix)"

definition strings_TrimSuffix :: "string \<Rightarrow> string \<Rightarrow> string" where
  "strings_TrimSuffix s suffix =
     (if strings_HasSuffix s suffix then take (length s - length suffix) s else s)"

text \<open>\<^verbatim>\<open>for k, v := range data { viewData[k] = v }\<close>; ranging over a nil map does nothing.\<close>

definition assignAll :: "(string, 'v) fmap \<Rightarrow> (string, 'v) fmap option \<Rightarrow> (string, 'v) fmap" where
  "assignAll viewData data = (case data of None \<Rightarrow> viewData | Some d \<Rightarrow> viewData ++\<^sub>f d)"

text \<open>\<^verbatim>\<open>fmt.Fprintf(w, format)\<close> with no operands appends the formatted text to the body.\<close>

definition Fprintf :: "('a, 'f, 'x) ext \<Rightarrow> 'x world \<Rightarrow> string \<Rightarrow> 'x world" where
  "Fprintf X w format = w\<lparr>body := body w @ fmt_Sprintf X format\<rparr>"

section \<open>render.go: the renderer and its options\<close>

text \<open>
  \<^verbatim>\<open>type renderer struct\<close>. A nil \<^verbatim>\<open>funcs\<close>, \<^verbatim>\<open>viewEngine\<close> or \<^verbatim>\<open>defaultData\<close> is
  \<open>None\<close>. The field \<^verbatim>\<open>goviewConfig\<close> is never read or written and is left out.
\<close>

record ('a, 'f, 'x) renderer =
  errorKey :: string
  root :: string
  layout :: string
  layouts :: string
  partials :: string
  extension :: string
  disableCache :: bool
  renderError :: string
  delims :: "string \<times> string"
  funcs :: "(string, 'f) fmap option"
  viewEngine :: "('a, 'x) ViewEngine option"
  defaultData :: "('a, 'x) Data option"
  debug :: bool

type_synonym ('a, 'f, 'x) Option = "('a, 'f, 'x) renderer \<Rightarrow> ('a, 'f, 'x) renderer"

definition StaticData :: "'a D \<Rightarrow> ('a, 'x) Data" where
  "StaticData d = (\<lambda>w. ((d, None), w))"


definition DefaultData :: "('a, 'x) Data option \<Rightarrow> ('a, 'f, 'x) Option" where
  "DefaultData data = (\<lambda>renderer. renderer\<lparr>defaultData := data\<rparr>)"





definition Layout :: "string \<Rightarrow> ('a, 'f, 'x) Option" where
  "Layout layout' = (\<lambda>renderer. renderer\<lparr>layout := layout'\<rparr>)"

text \<open>\<^verbatim>\<open>renderer.extension = fmt.Sprintf(".%s", extension)\<close>\<close>

definition Extension :: "string \<Rightarrow> ('a, 'f, 'x) Option" where
  "Extension extension' = (\<lambda>renderer. renderer\<lparr>extension := ''.'' @ extension'\<rparr>)"


definition Delimiters :: "string \<Rightarrow> string \<Rightarrow> ('a, 'f, 'x) Option" where
  "Delimiters left right = (\<lambda>renderer. renderer\<lparr>delims := (left, right)\<rparr>)"

definition AddFuncs :: "(string, 'f) fmap option \<Rightarrow> ('a, 'f, 'x) Option" where
  "AddFuncs funcMap = (\<lambda>renderer. renderer\<lparr>funcs := funcMap\<rparr>)"

definition RenderError :: "string \<Rightarrow> ('a, 'f, 'x) Option" where
  "RenderError error = (\<lambda>renderer. renderer\<lparr>renderError := error\<rparr>)"

section \<open>render.go: the handler returned by New\<close>

text \<open>
  The block run on a provider's error: \<^verbatim>\<open>errors.Unwrap\<close> decides whether the cause's
  text, lower-cased and with its first rune upper-cased, is appended to \<^verbatim>\<open>errStrings\<close>.
  The two \<^verbatim>\<open>log.Printf\<close> branches only write to the process log.
\<close>

definition appendError ::
  "('a, 'f, 'x) ext \<Rightarrow> string list \<Rightarrow> error option \<Rightarrow> string list" where
  "appendError X errStrings err =
     (case err of
        None \<Rightarrow> errStrings
      | Some e \<Rightarrow>
          (case Unwrap e of
             Some viewError \<Rightarrow> errStrings @ [first X (strings_ToLower X (message viewError))]
           | None \<Rightarrow> errStrings))"

text \<open>\<^verbatim>\<open>for _, dataFunc := range dataFuncs { ... }\<close>\<close>

fun runDataFuncs ::
  "('a, 'f, 'x) ext \<Rightarrow> ('a, 'x) Data list \<Rightarrow>
   (string, 'a val) fmap \<times> string list \<times> 'x world \<Rightarrow>
   (string, 'a val) fmap \<times> string list \<times> 'x world" where
  "runDataFuncs X [] s = s"
| "runDataFuncs X (dataFunc # rest) (viewData, errStrings, w) =
     (case dataFunc w of
        ((data, err), w') \<Rightarrow>
          runDataFuncs X rest (assignAll viewData data, appendError X errStrings err, w'))"

text \<open>
  The handler up to the render call: the state after the default provider and the
  per-call providers, before the error key is stored.
\<close>

definition collect ::
  "('a, 'f, 'x) ext \<Rightarrow> ('a, 'f, 'x) renderer \<Rightarrow> ('a, 'x) Data list \<Rightarrow> 'x world \<Rightarrow>
   (string, 'a val) fmap \<times> string list \<times> 'x world" where
  "collect X lr dataFuncs w =
     runDataFuncs X dataFuncs
       (case defaultData lr of
          None \<Rightarrow> (fmempty, [], w)
        | Some f \<Rightarrow>
            (case f w of
               ((defaultData', err), w') \<Rightarrow>
                 (assignAll fmempty defaultData', appendError X [] err, w')))"

text \<open>\<^verbatim>\<open>if len(errStrings) > 0 { viewData[lr.errorKey] = errStrings }\<close>\<close>

definition storeErrors ::
  "('a, 'f, 'x) renderer \<Rightarrow> (string, 'a val) fmap \<Rightarrow> string list \<Rightarrow> (string, 'a val) fmap" where
  "storeErrors lr viewData errStrings =
     (if length errStrings > 0 then fmupd (errorKey lr) (VStrs errStrings) viewData
      else viewData)"

text \<open>The view context that the handler passes to the engine, and the world at that point.\<close>

definition viewData_of ::
  "('a, 'f, 'x) ext \<Rightarrow> ('a, 'f, 'x) renderer \<Rightarrow> ('a, 'x) Data list \<Rightarrow> 'x world \<Rightarrow>
   (string, 'a val) fmap \<times> 'x world" where
  "viewData_of X lr dataFuncs w =
     (case collect X lr dataFuncs w of
        (viewData, errStrings, w') \<Rightarrow> (storeErrors lr viewData errStrings, w'))"

text \<open>
  The render call and the fallback. The engine is always called with
  \<^verbatim>\<open>http.StatusOK\<close>; on an error the handler writes \<^verbatim>\<open>lr.renderError\<close> with
  \<^verbatim>\<open>fmt.Fprintf(w, lr.renderError)\<close> and returns. The logging of both branches
  (\<^verbatim>\<open>pretty\<close>, \<^verbatim>\<open>lr.debug\<close>) only writes to the process log.
\<close>

definition renderView ::
  "('a, 'f, 'x) ext \<Rightarrow> ('a, 'x) ViewEngine option \<Rightarrow> string \<Rightarrow> string \<Rightarrow> 'a D \<Rightarrow>
   'x world \<Rightarrow> panic + 'x world" where
  "renderView X engine renderError' view data w =
     (case engine of
        None \<Rightarrow> Inl NilPointerDereference
      | Some e \<Rightarrow>
          (case e w 200 view data of
             (Some err, w') \<Rightarrow> Inr (Fprintf X w' renderError')
           | (None, w') \<Rightarrow> Inr w'))"

definition handler ::
  "('a, 'f, 'x) ext \<Rightarrow> ('a, 'f, 'x) renderer \<Rightarrow> string \<Rightarrow> ('a, 'x) Data list \<Rightarrow>
   'x world \<Rightarrow> panic + 'x world" where
  "handler X lr view dataFuncs w =
     (case viewData_of X lr dataFuncs w of
        (viewData, w') \<Rightarrow>
          renderView X (viewEngine lr) (renderError lr) view (Some viewData) w')"

section \<open>render.go: New\<close>

definition defaults :: "('a, 'f, 'x) renderer" where
  "defaults =
     \<lparr>errorKey = ''errors'', root = ''templates'', layout = ''index'', layouts = ''layouts'',
      partials = ''partials'', extension = ''.html'', disableCache = False,
      renderError = ''Something went wrong.'', delims = (''{{'', ''}}''), funcs = None,
      viewEngine = None, defaultData = None, debug = False\<rparr>"

text \<open>\<^verbatim>\<open>for _, opt := range opts { opt(lr) }\<close>\<close>

fun applyOpts :: "'r \<Rightarrow> ('r \<Rightarrow> 'r) list \<Rightarrow> 'r" where
  "applyOpts lr [] = lr"
| "applyOpts lr (opt # opts) = applyOpts (opt lr) opts"

text \<open>
  \<^verbatim>\<open>allFuncs\<close>: a fresh map that first receives the entries of \<^verbatim>\<open>lr.funcs\<close> and then
  those of \<^verbatim>\<open>sprig.FuncMap()\<close>.
\<close>

definition allFuncs ::
  "('a, 'f, 'x) ext \<Rightarrow> (string, 'f) fmap option \<Rightarrow> (string, 'f) fmap" where
  "allFuncs X funcs' = assignAll (assignAll fmempty funcs') (Some (sprig_FuncMap X))"

text \<open>
  The loop over the directory listing: an entry whose name does not end with the
  extension is skipped, the others are appended as \<^verbatim>\<open>partials/name-without-extension\<close>.
\<close>

fun collectPartials :: "string \<Rightarrow> string \<Rightarrow> string list \<Rightarrow> string list \<Rightarrow> string list" where
  "collectPartials partialsDir ext' [] acc = acc"
| "collectPartials partialsDir ext' (name # fileInfo) acc =
     (if \<not> strings_HasSuffix name ext' then collectPartials partialsDir ext' fileInfo acc
      else collectPartials partialsDir ext' fileInfo
             (acc @ [partialsDir @ ''/'' @ strings_TrimSuffix name ext']))"

text \<open>The \<^verbatim>\<open>goview.Config\<close> literal passed to \<^verbatim>\<open>goview.New\<close>.\<close>

definition engineConfig ::
  "('a, 'f, 'x) ext \<Rightarrow> ('a, 'f, 'x) renderer \<Rightarrow> string list \<Rightarrow> 'f Config" where
  "engineConfig X lr partials' =
     \<lparr>Root = root lr, Extension_cfg = extension lr,
      Master = layouts lr @ ''/'' @ layout lr, Partials = partials',
      DisableCache_cfg = disableCache lr, Funcs = sprig_FuncMap X\<rparr>"

text \<open>
  \<^verbatim>\<open>New\<close> in its stages. \<open>resolve\<close>: the defaults with the options applied and
  \<^verbatim>\<open>lr.funcs = allFuncs\<close>. \<open>New_config\<close>: the directory is listed, an error of
  \<^verbatim>\<open>ioutil.ReadDir\<close> is returned, otherwise the \<^verbatim>\<open>goview.Config\<close> is built.
  \<open>New_renderer\<close>: the renderer with \<^verbatim>\<open>lr.viewEngine\<close> set, which the returned closure
  captures.
\<close>

definition resolve ::
  "('a, 'f, 'x) ext \<Rightarrow> ('a, 'f, 'x) Option list \<Rightarrow> ('a, 'f, 'x) renderer" where
  "resolve X opts =
     (let lr = applyOpts defaults opts in lr\<lparr>funcs := Some (allFuncs X (funcs lr))\<rparr>)"

definition New_config ::
  "('a, 'f, 'x) ext \<Rightarrow> ('a, 'f, 'x) Option list \<Rightarrow> error + 'f Config" where
  "New_config X opts =
     (let lr = resolve X opts
      in case ioutil_ReadDir X (root lr @ ''/'' @ partials lr) of
           Inl err \<Rightarrow> Inl err
         | Inr fileInfo \<Rightarrow>
             Inr (engineConfig X lr
                    (collectPartials (partials lr) (extension lr) fileInfo [])))"

definition New_renderer ::
  "('a, 'f, 'x) ext \<Rightarrow> ('a, 'f, 'x) Option list \<Rightarrow> error + ('a, 'f, 'x) renderer" where
  "New_renderer X opts =
     (case New_config X opts of
        Inl err \<Rightarrow> Inl err
      | Inr cfg \<Rightarrow> Inr ((resolve X opts)\<lparr>viewEngine := Some (goview_New X cfg)\<rparr>))"

definition New ::
  "('a, 'f, 'x) ext \<Rightarrow> ('a, 'f, 'x) Option list \<Rightarrow>
   error + (string \<Rightarrow> ('a, 'x) Data list \<Rightarrow> 'x world \<Rightarrow> panic + 'x world)" where
  "New X opts =
     (case New_renderer X opts of Inl err \<Rightarrow> Inl err | Inr lr \<Rightarrow> Inr (handler X lr))"

section \<open>The LayoutRenderer file: renderer and options\<close>

text \<open>
  The second source file declares the same package with the exported type
  \<^verbatim>\<open>LayoutRenderer\<close>; its names carry the suffix \<open>_LR\<close> here where they clash with
  those of render.go. \<^verbatim>\<open>goviewConfig\<close> is again never read or written.
\<close>

record ('a, 'f, 'x) LayoutRenderer =
  errorKey_LR :: string
  root_LR :: string
  layout_LR :: string
  layouts_LR :: string
  partials_LR :: string
  extension_LR :: string
  disableCache_LR :: bool
  defaultError :: string
  renderError_LR :: string
  delims_LR :: "string \<times> string"
  funcs_LR :: "(string, 'f) fmap option"
  viewEngine_LR :: "('a, 'x) ViewEngine option"
  defaultHandler :: "('a, 'x) Data option"

type_synonym ('a, 'f, 'x) LayoutRendererOption =
  "('a, 'f, 'x) LayoutRenderer \<Rightarrow> ('a, 'f, 'x) LayoutRenderer"

definition DefaultHandler :: "('a, 'x) Data option \<Rightarrow> ('a, 'f, 'x) LayoutRendererOption" where
  "DefaultHandler handlerFunc = (\<lambda>renderer. renderer\<lparr>defaultHandler := handlerFunc\<rparr>)"




definition PartialsPath_LR :: "string \<Rightarrow> ('a, 'f, 'x) LayoutRendererOption" where
  "PartialsPath_LR partials' = (\<lambda>renderer. renderer\<lparr>partials_LR := partials'\<rparr>)"

definition Layout_LR :: "string \<Rightarrow> ('a, 'f, 'x) LayoutRendererOption" where
  "Layout_LR layout' = (\<lambda>renderer. renderer\<lparr>layout_LR := layout'\<rparr>)"

definition Extension_LR :: "string \<Rightarrow> ('a, 'f, 'x) LayoutRendererOption" where
  "Extension_LR extension' = (\<lambda>renderer. renderer\<lparr>extension_LR := ''.'' @ extension'\<rparr>)"


definition Delimiters_LR :: "string \<Rightarrow> string \<Rightarrow> ('a, 'f, 'x) LayoutRendererOption" where
  "Delimiters_LR left right = (\<lambda>renderer. renderer\<lparr>delims_LR := (left, right)\<rparr>)"

definition AddFuncs_LR :: "(string, 'f) fmap option \<Rightarrow> ('a, 'f, 'x) LayoutRendererOption" where
  "AddFuncs_LR funcMap = (\<lambda>renderer. renderer\<lparr>funcs_LR := funcMap\<rparr>)"


definition RenderError_LR :: "string \<Rightarrow> ('a, 'f, 'x) LayoutRendererOption" where
  "RenderError_LR error = (\<lambda>renderer. renderer\<lparr>renderError_LR := error\<rparr>)"

definition StaticView :: "('a, 'x) Data" where
  "StaticView = (\<lambda>w. ((Some fmempty, None), w))"

section \<open>The LayoutRenderer file: New\<close>

definition defaults_LR :: "('a, 'f, 'x) LayoutRenderer" where
  "defaults_LR =
     \<lparr>errorKey_LR = ''error'', root_LR = ''templates'', layout_LR = ''index'',
      layouts_LR = ''layouts'', partials_LR = ''partials'', extension_LR = ''.html'',
      disableCache_LR = False, defaultError = ''Internal Error'',
      renderError_LR = ''Something went wrong.'', delims_LR = (''{{'', ''}}''),
      funcs_LR = None, viewEngine_LR = None, defaultHandler = None\<rparr>"

definition engineConfig_LR ::
  "('a, 'f, 'x) ext \<Rightarrow> ('a, 'f, 'x) LayoutRenderer \<Rightarrow> string list \<Rightarrow> 'f Config" where
  "engineConfig_LR X d partials' =
     \<lparr>Root = root_LR d, Extension_cfg = extension_LR d,
      Master = layouts_LR d @ ''/'' @ layout_LR d, Partials = partials',
      DisableCache_cfg = disableCache_LR d, Funcs = sprig_FuncMap X\<rparr>"

definition resolve_LR ::
  "('a, 'f, 'x) ext \<Rightarrow> ('a, 'f, 'x) LayoutRendererOption list \<Rightarrow>
   ('a, 'f, 'x) LayoutRenderer" where
  "resolve_LR X opts =
     (let d = applyOpts defaults_LR opts in d\<lparr>funcs_LR := Some (allFuncs X (funcs_LR d))\<rparr>)"

definition New_config_LR ::
  "('a, 'f, 'x) ext \<Rightarrow> ('a, 'f, 'x) LayoutRendererOption list \<Rightarrow> error + 'f Config" where
  "New_config_LR X opts =
     (let d = resolve_LR X opts
      in case ioutil_ReadDir X (root_LR d @ ''/'' @ partials_LR d) of
           Inl err \<Rightarrow> Inl err
         | Inr fileInfo \<Rightarrow>
             Inr (engineConfig_LR X d
                    (collectPartials (partials_LR d) (extension_LR d) fileInfo [])))"

definition New_LR ::
  "('a, 'f, 'x) ext \<Rightarrow> ('a, 'f, 'x) LayoutRendererOption list \<Rightarrow>
   error + ('a, 'f, 'x) LayoutRenderer" where
  "New_LR X opts =
     (case New_config_LR X opts of
        Inl err \<Rightarrow> Inl err
      | Inr cfg \<Rightarrow> Inr ((resolve_LR X opts)\<lparr>viewEngine_LR := Some (goview_New X cfg)\<rparr>))"

section \<open>The LayoutRenderer file: Handle\<close>

text \<open>\<^verbatim>\<open>viewData[lr.errorKey] != nil\<close>: the key is present and its value is not the nil interface.\<close>

definition notNil :: "(string, 'a val) fmap \<Rightarrow> string \<Rightarrow> bool" where
  "notNil viewData k =
     (case fmlookup viewData k of None \<Rightarrow> False | Some VNil \<Rightarrow> False | Some _ \<Rightarrow> True)"

text \<open>The operand of the verb \<^verbatim>\<open>%s\<close>: a string is printed as it is.\<close>

definition verb_s :: "('a, 'f, 'x) ext \<Rightarrow> 'a val option \<Rightarrow> string" where
  "verb_s X v =
     (case v of Some (VStr s) \<Rightarrow> s | Some u \<Rightarrow> fmt_verb_s X u | None \<Rightarrow> fmt_verb_s X VNil)"

text \<open>
  The block run on the default handler's error (in \<^verbatim>\<open>Handle\<close> and in
  \<^verbatim>\<open>HandleStaticWithData\<close>): the error key is set to the cause's text or to the default
  error message.
\<close>

definition defaultHandlerError ::
  "('a, 'f, 'x) ext \<Rightarrow> ('a, 'f, 'x) LayoutRenderer \<Rightarrow> (string, 'a val) fmap \<Rightarrow>
   error option \<Rightarrow> (string, 'a val) fmap" where
  "defaultHandlerError X lr viewData err =
     (case err of
        None \<Rightarrow> viewData
      | Some e \<Rightarrow>
          (case Unwrap e of
             Some viewError \<Rightarrow>
               fmupd (errorKey_LR lr)
                 (VStr (first X (strings_ToLower X (message viewError)))) viewData
           | None \<Rightarrow> fmupd (errorKey_LR lr) (VStr (defaultError lr)) viewData))"

text \<open>The block run on the view handler's error in \<^verbatim>\<open>Handle\<close>.\<close>

definition viewHandlerError ::
  "('a, 'f, 'x) ext \<Rightarrow> ('a, 'f, 'x) LayoutRenderer \<Rightarrow> (string, 'a val) fmap \<Rightarrow>
   error option \<Rightarrow> (string, 'a val) fmap" where
  "viewHandlerError X lr viewData err =
     (case err of
        None \<Rightarrow> viewData
      | Some e \<Rightarrow>
          (case Unwrap e of
             Some viewError \<Rightarrow>
               (if notNil viewData (errorKey_LR lr) then
                  fmupd (errorKey_LR lr)
                    (VStr (verb_s X (fmlookup viewData (errorKey_LR lr)) @ '' '' @
                           first X (strings_ToLower X (message viewError)))) viewData
                else
                  fmupd (errorKey_LR lr)
                    (VStr (first X (strings_ToLower X (message viewError)))) viewData)
           | None \<Rightarrow> fmupd (errorKey_LR lr) (VStr (defaultError lr)) viewData))"

text \<open>The first part of both handlers: \<^verbatim>\<open>viewData\<close> after the default handler.\<close>

definition afterDefault ::
  "('a, 'f, 'x) ext \<Rightarrow> ('a, 'f, 'x) LayoutRenderer \<Rightarrow> 'x world \<Rightarrow>
   (string, 'a val) fmap \<times> 'x world" where
  "afterDefault X lr w =
     (case defaultHandler lr of
        None \<Rightarrow> (fmempty, w)
      | Some f \<Rightarrow>
          (case f w of
             ((defaultData', err), w') \<Rightarrow>
               (assignAll (defaultHandlerError X lr fmempty err) defaultData', w')))"

text \<open>
  \<^verbatim>\<open>for k, v := range viewData { data[k] = v }\<close>: the first assignment to a nil
  \<^verbatim>\<open>data\<close> panics; when \<^verbatim>\<open>viewData\<close> is empty nothing is assigned.
\<close>

definition assignInto ::
  "'a D \<Rightarrow> (string, 'a val) fmap \<Rightarrow> panic + 'a D" where
  "assignInto data viewData =
     (case data of
        Some d \<Rightarrow> Inr (Some (d ++\<^sub>f viewData))
      | None \<Rightarrow> if fmdom viewData = {||} then Inr None else Inl NilMapAssignment)"

text \<open>\<^verbatim>\<open>Handle\<close> up to the render call: the \<^verbatim>\<open>data\<close> it passes to the engine.\<close>

definition Handle_data ::
  "('a, 'f, 'x) ext \<Rightarrow> ('a, 'f, 'x) LayoutRenderer \<Rightarrow> ('a, 'x) Data \<Rightarrow> 'x world \<Rightarrow>
   panic + ('a D \<times> 'x world)" where
  "Handle_data X lr viewHandlerFunc w =
     (case afterDefault X lr w of
        (viewData, w') \<Rightarrow>
          (case viewHandlerFunc w' of
             ((data, err), w'') \<Rightarrow>
               (case assignInto data (viewHandlerError X lr viewData err) of
                  Inl p \<Rightarrow> Inl p
                | Inr data' \<Rightarrow> Inr (data', w''))))"

definition Handle ::
  "('a, 'f, 'x) ext \<Rightarrow> ('a, 'f, 'x) LayoutRenderer \<Rightarrow> string \<Rightarrow> ('a, 'x) Data \<Rightarrow>
   'x world \<Rightarrow> panic + 'x world" where
  "Handle X lr view viewHandlerFunc w =
     (case Handle_data X lr viewHandlerFunc w of
        Inl p \<Rightarrow> Inl p
      | Inr (data, w') \<Rightarrow> renderView X (viewEngine_LR lr) (renderError_LR lr) view data w')"

definition HandleStaticWithData ::
  "('a, 'f, 'x) ext \<Rightarrow> ('a, 'f, 'x) LayoutRenderer \<Rightarrow> string \<Rightarrow> 'a D \<Rightarrow>
   'x world \<Rightarrow> panic + 'x world" where
  "HandleStaticWithData X lr view data w =
     (case afterDefault X lr w of
        (viewData, w') \<Rightarrow>
          renderView X (viewEngine_LR lr) (renderError_LR lr) view
            (Some (assignAll viewData data)) w')"

definition HandleStatic ::
  "('a, 'f, 'x) ext \<Rightarrow> ('a, 'f, 'x) LayoutRenderer \<Rightarrow> string \<Rightarrow>
   'x world \<Rightarrow> panic + 'x world" where
  "HandleStatic X lr view = HandleStaticWithData X lr view None"

section \<open>A concrete library for evaluation\<close>

text \<open>
  \<^verbatim>\<open>unicode.ToLower\<close> and \<^verbatim>\<open>unicode.ToUpper\<close> on the runes below U+0080, where they only
  change the letters A to Z and a to z.
\<close>

definition ascii_ToLower :: "char \<Rightarrow> char" where
  "ascii_ToLower c =
     (case map_of (zip ''ABCDEFGHIJKLMNOPQRSTUVWXYZ'' ''abcdefghijklmnopqrstuvwxyz'') c of
        Some l \<Rightarrow> l
      | None \<Rightarrow> c)"

definition ascii_ToUpper :: "char \<Rightarrow> char" where
  "ascii_ToUpper c =
     (case map_of (zip ''abcdefghijklmnopqrstuvwxyz'' ''ABCDEFGHIJKLMNOPQRSTUVWXYZ'') c of
        Some u \<Rightarrow> u
      | None \<Rightarrow> c)"

text \<open>
  \<^verbatim>\<open>fmt.Sprintf(format)\<close> without operands, for a format in which every \<^verbatim>\<open>%\<close> is
  followed directly by its verb (no flags, width, precision or argument index): text
  is copied, \<^verbatim>\<open>%%\<close> prints a percent sign, any other verb finds no operand and prints
  \<^verbatim>\<open>%!v(MISSING)\<close> with the verb in place of \<^verbatim>\<open>v\<close>, and a \<^verbatim>\<open>%\<close> that ends the
  format prints \<^verbatim>\<open>%!(NOVERB)\<close>.
\<close>

fun Sprintf_noargs :: "string \<Rightarrow> string" where
  "Sprintf_noargs [] = []"
| "Sprintf_noargs [c] = (if c = CHR ''%'' then ''%!(NOVERB)'' else [c])"
| "Sprintf_noargs (c # v # rest) =
     (if c \<noteq> CHR ''%'' then c # Sprintf_noargs (v # rest)
      else if v = CHR ''%'' then CHR ''%'' # Sprintf_noargs rest
      else ''%!'' @ [v] @ ''(MISSING)'' @ Sprintf_noargs rest)"

text \<open>
  Two engines for evaluation: one that writes the view's name and succeeds, one that
  writes nothing and reports an error.
\<close>

definition echoEngine :: "('a, unit) ViewEngine" where
  "echoEngine w statusCode name data = (None, w\<lparr>body := body w @ name\<rparr>)"

definition failingEngine :: "('a, unit) ViewEngine" where
  "failingEngine w statusCode name data = (Some (MkError ''template not found'' None), w)"

text \<open>
  The verb \<^verbatim>\<open>%s\<close> on an operand that is not a string: the nil interface prints
  \<^verbatim>\<open>%!s(<nil>)\<close>, a slice of strings prints its elements between brackets, separated
  by spaces. Any other value is represented here by the text that \<^verbatim>\<open>%s\<close> prints for it.
\<close>

fun joinSpace :: "string list \<Rightarrow> string" where
  "joinSpace [] = []"
| "joinSpace [s] = s"
| "joinSpace (s # t # ss) = s @ '' '' @ joinSpace (t # ss)"

fun go_verb_s :: "string val \<Rightarrow> string" where
  "go_verb_s VNil = ''%!s(<nil>)''"
| "go_verb_s (VStr s) = s"
| "go_verb_s (VStrs ss) = ''['' @ joinSpace ss @ '']''"
| "go_verb_s (VOther s) = s"

definition testExt :: "bool \<Rightarrow> string list \<Rightarrow> (string, nat, unit) ext" where
  "testExt renders listing =
     \<lparr>unicode_ToLower = ascii_ToLower, unicode_ToUpper = ascii_ToUpper,
      fmt_verb_s = go_verb_s, fmt_Sprintf = Sprintf_noargs,
      sprig_FuncMap = fmap_of_list [(''upper'', 0), (''lower'', 1)],
      ioutil_ReadDir = (\<lambda>dir. Inr listing),
      goview_New = (\<lambda>cfg. if renders then echoEngine else failingEngine)\<rparr>"

definition w0 :: "unit world" where
  "w0 = \<lparr>body = [], other = ()\<rparr>"

text \<open>
  \<^verbatim>\<open>errors.New(text)\<close>, \<^verbatim>\<open>fmt.Errorf(prefix + "%w", err)\<close>, and a provider that returns
  the given map and error and touches nothing else.
\<close>

definition errors_New :: "string \<Rightarrow> error" where
  "errors_New text = MkError text None"

definition fmt_Errorf_w :: "string \<Rightarrow> error \<Rightarrow> error" where
  "fmt_Errorf_w prefix err = MkError (prefix @ message err) (Some err)"

definition constData :: "'a D \<Rightarrow> error option \<Rightarrow> ('a, 'x) Data" where
  "constData d err = (\<lambda>w. ((d, err), w))"

text \<open>A provider that first writes a text to the response.\<close>

definition writingData :: "string \<Rightarrow> 'a D \<Rightarrow> error option \<Rightarrow> ('a, 'x) Data" where
  "writingData text d err = (\<lambda>w. ((d, err), w\<lparr>body := body w @ text\<rparr>))"

section \<open>Vocabulary of the specification\<close>

text \<open>
  The specification's Error Classifier: an error that unwraps to a cause is user-facing,
  with the cause's message lower-cased and its first rune upper-cased; any other error
  is internal.
\<close>

datatype classified = UserFacing string | Internal error

definition classify :: "('a, 'f, 'x) ext \<Rightarrow> error \<Rightarrow> classified" where
  "classify X err =
     (case Unwrap err of
        Some cause \<Rightarrow> UserFacing (first X (strings_ToLower X (message cause)))
      | None \<Rightarrow> Internal err)"

fun userMessage :: "classified \<Rightarrow> string list" where
  "userMessage (UserFacing m) = [m]"
| "userMessage (Internal e) = []"

fun isUserFacing :: "classified \<Rightarrow> bool" where
  "isUserFacing (UserFacing m) = True"
| "isUserFacing (Internal e) = False"

text \<open>
  The providers of one request in call order (the default provider first, when there is
  one), and what running all of them one after the other returns: every provider is
  called on the world its predecessor left, whatever that predecessor returned.
\<close>

definition providers ::
  "('a, 'f, 'x) renderer \<Rightarrow> ('a, 'x) Data list \<Rightarrow> ('a, 'x) Data list" where
  "providers lr dataFuncs = (case defaultData lr of None \<Rightarrow> [] | Some f \<Rightarrow> [f]) @ dataFuncs"

fun runAll ::
  "('a, 'x) Data list \<Rightarrow> 'x world \<Rightarrow> ('a D \<times> error option) list \<times> 'x world" where
  "runAll [] w = ([], w)"
| "runAll (f # fs) w =
     (case f w of (r, w') \<Rightarrow> (case runAll fs w' of (rs, w'') \<Rightarrow> (r # rs, w'')))"

text \<open>The errors among the results, in order, and the outputs merged with the last writer winning.\<close>

definition failures :: "('a D \<times> error option) list \<Rightarrow> error list" where
  "failures rs = List.map_filter snd rs"

definition lastWriter :: "('a D \<times> error option) list \<Rightarrow> (string, 'a val) fmap" where
  "lastWriter rs = foldl assignAll fmempty (map fst rs)"

text \<open>
  The messages of the user-facing failures among the results, in order, and the number
  of user-facing failures.
\<close>

definition userFacingMessages ::
  "('a, 'f, 'x) ext \<Rightarrow> ('a D \<times> error option) list \<Rightarrow> string list" where
  "userFacingMessages X rs = concat (map (\<lambda>e. userMessage (classify X e)) (failures rs))"

definition userFacingCount ::
  "('a, 'f, 'x) ext \<Rightarrow> ('a D \<times> error option) list \<Rightarrow> nat" where
  "userFacingCount X rs = length (filter (\<lambda>e. isUserFacing (classify X e)) (failures rs))"

text \<open>
  What the engine finds at a key of the data that \<^verbatim>\<open>Handle\<close> passes to it: nothing when
  the handler panicked before the call, when the data is the nil map, or when the key is
  absent.
\<close>

definition contextAt :: "string \<Rightarrow> panic + ('a D \<times> 'x world) \<Rightarrow> 'a val option" where
  "contextAt k r =
     (case r of
        Inl p \<Rightarrow> None
      | Inr (data, w) \<Rightarrow> (case data of None \<Rightarrow> None | Some c \<Rightarrow> fmlookup c k))"

section \<open>Evaluation of the helpers\<close>

text \<open>Lower-casing a text and upper-casing its first rune, rune by rune.\<close>

lemma first_ToLower:
  "first X (strings_ToLower X s) =
     (case s of [] \<Rightarrow> [] | c # cs \<Rightarrow>
        unicode_ToUpper X (unicode_ToLower X c) # map (unicode_ToLower X) cs)"
  by (cases s) (simp_all add: first_def strings_ToLower_def)

lemmas eval_defs =
  testExt_def resolve_def resolve_LR_def defaults_def defaults_LR_def Let_def w0_def
  constData_def errors_New_def fmt_Errorf_w_def afterDefault_def allFuncs_def assignAll_def
  DefaultHandler_def ascii_ToLower_def ascii_ToUpper_def first_ToLower

section \<open>Properties of the accumulating handler of render.go\<close>

lemma userFacingMessages_Nil: "userFacingMessages X [] = []"
  by (simp add: userFacingMessages_def failures_def List.map_filter_simps)

lemma userFacingMessages_Cons:
  "errStrings @ userFacingMessages X ((d, err) # rs) =
     appendError X errStrings err @ userFacingMessages X rs"
  by (cases err)
    (auto simp: userFacingMessages_def appendError_def failures_def List.map_filter_simps
       classify_def split: option.splits)

text \<open>The loop over the per-call providers computes what \<open>runAll\<close> describes.\<close>

lemma runDataFuncs_runAll:
  "runDataFuncs X fs (viewData, errStrings, w) =
     (case runAll fs w of
        (rs, w') \<Rightarrow>
          (foldl assignAll viewData (map fst rs), errStrings @ userFacingMessages X rs, w'))"
proof (induction fs arbitrary: viewData errStrings w)
  case Nil
  show ?case by (simp add: userFacingMessages_Nil)
next
  case (Cons f fs)
  obtain d err w1 where f: "f w = ((d, err), w1)"
    by (metis prod.exhaust)
  obtain rs w2 where r: "runAll fs w1 = (rs, w2)"
    by (metis prod.exhaust)
  show ?case
    using Cons.IH [of "assignAll viewData d" "appendError X errStrings err" w1] f r
    by (simp add: userFacingMessages_Cons)
qed

lemma userFacingMessages_length: "length (userFacingMessages X rs) = userFacingCount X rs"
proof -
  have "length (concat (map (\<lambda>e. userMessage (classify X e)) es)) =
        length (filter (\<lambda>e. isUserFacing (classify X e)) es)" for es
  proof (induction es)
    case Nil
    show ?case by simp
  next
    case (Cons e es)
    then show ?case by (cases "classify X e") simp_all
  qed
  then show ?thesis by (simp add: userFacingMessages_def userFacingCount_def)
qed

lemma runAll_length: "length (fst (runAll fs w)) = length fs"
proof (induction fs arbitrary: w)
  case Nil
  show ?case by simp
next
  case (Cons f fs)
  obtain r w1 where f: "f w = (r, w1)"
    by (metis prod.exhaust)
  obtain rs w2 where r: "runAll fs w1 = (rs, w2)"
    by (metis prod.exhaust)
  from Cons.IH [of w1] f r show ?case by simp
qed

lemma collect_runAll:
  "collect X lr dataFuncs w =
     (case runAll (providers lr dataFuncs) w of
        (rs, w') \<Rightarrow> (lastWriter rs, userFacingMessages X rs, w'))"
proof (cases "defaultData lr")
  case None
  then show ?thesis
    by (simp add: collect_def providers_def runDataFuncs_runAll lastWriter_def)
next
  case (Some f)
  obtain d err w1 where f: "f w = ((d, err), w1)"
    by (metis prod.exhaust)
  obtain rs w2 where r: "runAll dataFuncs w1 = (rs, w2)"
    by (metis prod.exhaust)
  have "appendError X [] err @ userFacingMessages X rs = userFacingMessages X ((d, err) # rs)"
    using userFacingMessages_Cons [of "[]" X d err rs] by simp
  with Some f r show ?thesis
    by (simp add: collect_def providers_def runDataFuncs_runAll lastWriter_def)
qed

text \<open>
  Claim C2. In the handler returned by \<^verbatim>\<open>New\<close> in render.go, the default provider (when
  set) and every per-call provider run in order, each on the world its predecessor left,
  also after a failure: there are as many results as providers. The strings collected
  are the messages of the user-facing failures, in order, and their number is the number
  of user-facing failures, so an internal failure adds none. The context passed to the
  engine is the providers' merged output, and the list is stored at the error key, as a
  slice of strings, exactly when it is not empty.
\<close>

theorem accumulating_merge:
  "case runAll (providers lr dataFuncs) w of
     (rs, w') \<Rightarrow>
       length rs = length (providers lr dataFuncs) \<and>
       collect X lr dataFuncs w = (lastWriter rs, userFacingMessages X rs, w') \<and>
       viewData_of X lr dataFuncs w =
         (if userFacingMessages X rs \<noteq> []
          then fmupd (errorKey lr) (VStrs (userFacingMessages X rs)) (lastWriter rs)
          else lastWriter rs, w') \<and>
       length (userFacingMessages X rs) = userFacingCount X rs \<and>
       handler X lr view dataFuncs w =
         renderView X (viewEngine lr) (renderError lr) view
           (Some (fst (viewData_of X lr dataFuncs w))) w'"
proof -
  obtain rs w' where r: "runAll (providers lr dataFuncs) w = (rs, w')"
    by (metis prod.exhaust)
  have len: "length rs = length (providers lr dataFuncs)"
    using runAll_length [of "providers lr dataFuncs" w] r by simp
  have c: "collect X lr dataFuncs w = (lastWriter rs, userFacingMessages X rs, w')"
    using collect_runAll [of X lr dataFuncs w] r by simp
  have v: "viewData_of X lr dataFuncs w =
         (if userFacingMessages X rs \<noteq> []
          then fmupd (errorKey lr) (VStrs (userFacingMessages X rs)) (lastWriter rs)
          else lastWriter rs, w')"
    by (simp add: viewData_of_def c storeErrors_def)
  have h: "handler X lr view dataFuncs w =
         renderView X (viewEngine lr) (renderError lr) view
           (Some (fst (viewData_of X lr dataFuncs w))) w'"
    by (simp add: handler_def v)
  show ?thesis
    using r len c v h userFacingMessages_length [of X rs] by simp
qed

text \<open>
  A default provider and three per-call providers, the second failing with an internal
  error and returning a nil map: all four write to the response in order, the last
  writer's value of \<^verbatim>\<open>x\<close> is kept, and the error key holds the two user-facing
  messages.
\<close>

theorem accumulating_merge_witness:
  "case viewData_of (testExt True [])
          (resolve (testExt True [])
             [DefaultData (Some (writingData ''d''
                (Some (fmap_of_list [(''app'', VStr ''renderlayout''), (''x'', VStr ''0'')])) None))])
          [writingData ''1'' (Some (fmap_of_list [(''x'', VStr ''1'')]))
             (Some (fmt_Errorf_w ''lookup: '' (errors_New ''NOT found''))),
           writingData ''2'' None (Some (errors_New ''db down'')),
           writingData ''3'' (Some (fmap_of_list [(''x'', VStr ''3'')]))
             (Some (fmt_Errorf_w ''save: '' (errors_New ''too late'')))] w0 of
     (viewData, w) \<Rightarrow>
       fmlookup viewData ''app'' = Some (VStr ''renderlayout'') \<and>
       fmlookup viewData ''x'' = Some (VStr ''3'') \<and>
       fmlookup viewData ''errors'' = Some (VStrs [''Not found'', ''Too late'']) \<and>
       body w = ''d123''"
  using accumulating_merge
    [where X = "testExt True []" and w = w0 and view = "''home''"
       and lr = "resolve (testExt True [])
             [DefaultData (Some (writingData ''d''
                (Some (fmap_of_list [(''app'', VStr ''renderlayout''), (''x'', VStr ''0'')])) None))]"
       and dataFuncs = "[writingData ''1'' (Some (fmap_of_list [(''x'', VStr ''1'')]))
             (Some (fmt_Errorf_w ''lookup: '' (errors_New ''NOT found''))),
           writingData ''2'' None (Some (errors_New ''db down'')),
           writingData ''3'' (Some (fmap_of_list [(''x'', VStr ''3'')]))
             (Some (fmt_Errorf_w ''save: '' (errors_New ''too late'')))]"]
  by (simp add: eval_defs DefaultData_def writingData_def providers_def lastWriter_def
      userFacingMessages_def userFacingCount_def failures_def List.map_filter_simps
      classify_def)

section \<open>Properties of New\<close>

lemma collectPartials_eq:
  "collectPartials p e fileInfo acc =
     acc @ map (\<lambda>name. p @ ''/'' @ strings_TrimSuffix name e)
             (filter (\<lambda>name. strings_HasSuffix name e) fileInfo)"
  by (induction fileInfo arbitrary: acc) simp_all

lemma HasSuffix_iff: "strings_HasSuffix name e \<longleftrightarrow> (\<exists>stem. name = stem @ e)"
proof
  assume "strings_HasSuffix name e"
  then have "name = take (length name - length e) name @ e"
    by (metis append_take_drop_id strings_HasSuffix_def)
  then show "\<exists>stem. name = stem @ e" ..
next
  assume "\<exists>stem. name = stem @ e"
  then show "strings_HasSuffix name e"
    by (auto simp: strings_HasSuffix_def)
qed

lemma TrimSuffix_append: "strings_TrimSuffix (stem @ e) e = stem"
  by (simp add: strings_TrimSuffix_def strings_HasSuffix_def)

text \<open>
  Claim C9. When the directory \<^verbatim>\<open>root/partials\<close> can be listed, the partials passed to
  the engine are, in listing order, exactly the entries whose name ends with the
  configured extension, each as \<^verbatim>\<open>partials-dir/name-without-extension\<close>; every other
  entry is left out. This holds in both source files. A name ends with the extension
  when it is some stem followed by the extension, and that stem is what is emitted.
\<close>

theorem partial_discovery:
  assumes "lr = resolve X opts"
    and "ioutil_ReadDir X (root lr @ ''/'' @ partials lr) = Inr fileInfo"
    and "d = resolve_LR X opts'"
    and "ioutil_ReadDir X (root_LR d @ ''/'' @ partials_LR d) = Inr fileInfo'"
  shows "map_sum id Partials (New_config X opts) =
           Inr (map (\<lambda>name. partials lr @ ''/'' @ strings_TrimSuffix name (extension lr))
                  (filter (\<lambda>name. strings_HasSuffix name (extension lr)) fileInfo)) \<and>
         map_sum id Partials (New_config_LR X opts') =
           Inr (map (\<lambda>name. partials_LR d @ ''/'' @ strings_TrimSuffix name (extension_LR d))
                  (filter (\<lambda>name. strings_HasSuffix name (extension_LR d)) fileInfo')) \<and>
         (strings_HasSuffix name e \<longleftrightarrow> (\<exists>stem. name = stem @ e)) \<and>
         strings_TrimSuffix (stem @ e) e = stem"
proof -
  have a: "map_sum id Partials (New_config X opts) =
           Inr (map (\<lambda>name. partials lr @ ''/'' @ strings_TrimSuffix name (extension lr))
                  (filter (\<lambda>name. strings_HasSuffix name (extension lr)) fileInfo))"
    using assms(2) unfolding assms(1)
    by (simp add: New_config_def Let_def engineConfig_def collectPartials_eq)
  have b: "map_sum id Partials (New_config_LR X opts') =
           Inr (map (\<lambda>name. partials_LR d @ ''/'' @ strings_TrimSuffix name (extension_LR d))
                  (filter (\<lambda>name. strings_HasSuffix name (extension_LR d)) fileInfo'))"
    using assms(4) unfolding assms(3)
    by (simp add: New_config_LR_def Let_def engineConfig_LR_def collectPartials_eq)
  show ?thesis
    using a b HasSuffix_iff [of name e] TrimSuffix_append [of stem e] by blast
qed

text \<open>
  The listing \<^verbatim>\<open>footer.html, header.html, notes.txt\<close> with the default extension gives
  \<^verbatim>\<open>partials/footer, partials/header\<close>; with the extension \<^verbatim>\<open>txt\<close> and the
  partials directory \<^verbatim>\<open>parts\<close> it gives \<^verbatim>\<open>parts/notes\<close>.
\<close>

theorem partial_discovery_witness:
  "map_sum id Partials
     (New_config (testExt True [''footer.html'', ''header.html'', ''notes.txt'']) []) =
     Inr [''partials/footer'', ''partials/header''] \<and>
   map_sum id Partials
     (New_config_LR (testExt True [''footer.html'', ''header.html'', ''notes.txt''])
        [PartialsPath_LR ''parts'', Extension_LR ''txt'']) =
     Inr [''parts/notes'']"
  using partial_discovery
    [of "resolve (testExt True [''footer.html'', ''header.html'', ''notes.txt'']) []"
        "testExt True [''footer.html'', ''header.html'', ''notes.txt'']" "[]"
        "[''footer.html'', ''header.html'', ''notes.txt'']"
        "resolve_LR (testExt True [''footer.html'', ''header.html'', ''notes.txt''])
           [PartialsPath_LR ''parts'', Extension_LR ''txt'']"
        "[PartialsPath_LR ''parts'', Extension_LR ''txt'']"
        "[''footer.html'', ''header.html'', ''notes.txt'']"]
  by (simp add: testExt_def resolve_def resolve_LR_def defaults_def defaults_LR_def
      PartialsPath_LR_def Extension_LR_def strings_HasSuffix_def strings_TrimSuffix_def)

lemma applyOpts_append: "applyOpts lr (opts @ opts') = applyOpts (applyOpts lr opts) opts'"
  by (induction opts arbitrary: lr) simp_all






lemma handler_fields:
  assumes "errorKey lr = errorKey lr'" and "defaultData lr = defaultData lr'"
    and "viewEngine lr = viewEngine lr'" and "renderError lr = renderError lr'"
  shows "handler X lr = handler X lr'"
proof -
  have s: "storeErrors lr = storeErrors lr'"
    by (intro ext) (simp add: storeErrors_def assms split: option.splits prod.splits sum.splits)
  have c: "collect X lr = collect X lr'"
    by (intro ext) (simp add: collect_def assms split: option.splits prod.splits sum.splits)
  show ?thesis
    by (intro ext) (simp add: handler_def viewData_of_def s c assms split: option.splits prod.splits sum.splits)
qed

lemma afterDefault_fields:
  assumes "errorKey_LR d = errorKey_LR d'" and "defaultHandler d = defaultHandler d'"
    and "defaultError d = defaultError d'"
  shows "afterDefault X d = afterDefault X d'"
proof -
  have "defaultHandlerError X d = defaultHandlerError X d'"
    by (intro ext) (simp add: defaultHandlerError_def assms split: option.splits prod.splits sum.splits)
  then show ?thesis
    by (intro ext) (simp add: afterDefault_def assms split: option.splits prod.splits sum.splits)
qed

lemma Handle_fields:
  assumes "errorKey_LR d = errorKey_LR d'" and "defaultHandler d = defaultHandler d'"
    and "defaultError d = defaultError d'"
    and "viewEngine_LR d = viewEngine_LR d'" and "renderError_LR d = renderError_LR d'"
  shows "Handle X d = Handle X d'"
proof -
  have "viewHandlerError X d = viewHandlerError X d'"
    by (intro ext) (simp add: viewHandlerError_def assms split: option.splits prod.splits sum.splits)
  then show ?thesis
    using afterDefault_fields [OF assms(1-3), of X]
    by (intro ext) (simp add: Handle_def Handle_data_def assms split: option.splits prod.splits sum.splits)
qed

lemma HandleStaticWithData_fields:
  assumes "errorKey_LR d = errorKey_LR d'" and "defaultHandler d = defaultHandler d'"
    and "defaultError d = defaultError d'"
    and "viewEngine_LR d = viewEngine_LR d'" and "renderError_LR d = renderError_LR d'"
  shows "HandleStaticWithData X d = HandleStaticWithData X d'"
  using afterDefault_fields [OF assms(1-3), of X]
  by (intro ext) (simp add: HandleStaticWithData_def assms split: option.splits prod.splits sum.splits)

lemma applyOpts_delims:
  "\<forall>opt\<in>set opts. \<forall>lr. opt (lr\<lparr>delims := p\<rparr>) = (opt lr)\<lparr>delims := p\<rparr> \<Longrightarrow>
   applyOpts (lr\<lparr>delims := p\<rparr>) opts = (applyOpts lr opts)\<lparr>delims := p\<rparr>"
  by (induction opts arbitrary: lr) simp_all

lemma applyOpts_delims_LR:
  "\<forall>opt\<in>set opts. \<forall>d. opt (d\<lparr>delims_LR := p\<rparr>) = (opt d)\<lparr>delims_LR := p\<rparr> \<Longrightarrow>
   applyOpts (d\<lparr>delims_LR := p\<rparr>) opts = (applyOpts d opts)\<lparr>delims_LR := p\<rparr>"
  by (induction opts arbitrary: d) simp_all

lemma resolve_Delimiters:
  assumes "\<forall>opt\<in>set opts2. \<forall>lr. opt (lr\<lparr>delims := (l, r)\<rparr>) = (opt lr)\<lparr>delims := (l, r)\<rparr>"
  shows "resolve X (opts1 @ Delimiters l r # opts2) = (resolve X (opts1 @ opts2))\<lparr>delims := (l, r)\<rparr>"
  using applyOpts_delims [OF assms]
  by (simp add: resolve_def applyOpts_append Delimiters_def Let_def)

lemma resolve_Delimiters_LR:
  assumes "\<forall>opt\<in>set opts2. \<forall>d. opt (d\<lparr>delims_LR := (l, r)\<rparr>) = (opt d)\<lparr>delims_LR := (l, r)\<rparr>"
  shows "resolve_LR X (opts1 @ Delimiters_LR l r # opts2) =
         (resolve_LR X (opts1 @ opts2))\<lparr>delims_LR := (l, r)\<rparr>"
  using applyOpts_delims_LR [OF assms]
  by (simp add: resolve_LR_def applyOpts_append Delimiters_LR_def Let_def)

text \<open>
  Claim C10. \<^verbatim>\<open>Delimiters(l, r)\<close> stores the pair on the renderer, and nothing that
  \<^verbatim>\<open>New\<close> builds reads it: wherever the option stands among options that leave the
  delimiters alone, the \<^verbatim>\<open>goview.Config\<close> passed to \<^verbatim>\<open>goview.New\<close> and the handlers
  obtained are the same as without it. This holds in both source files.
\<close>

theorem delimiters_not_passed:
  assumes "\<forall>opt\<in>set opts2. \<forall>lr. opt (lr\<lparr>delims := (l, r)\<rparr>) = (opt lr)\<lparr>delims := (l, r)\<rparr>"
    and "\<forall>opt\<in>set opts2'. \<forall>d. opt (d\<lparr>delims_LR := (l, r)\<rparr>) = (opt d)\<lparr>delims_LR := (l, r)\<rparr>"
  shows "delims (resolve X (opts1 @ Delimiters l r # opts2)) = (l, r) \<and>
         New_config X (opts1 @ Delimiters l r # opts2) = New_config X (opts1 @ opts2) \<and>
         New X (opts1 @ Delimiters l r # opts2) = New X (opts1 @ opts2) \<and>
         delims_LR (resolve_LR X (opts1' @ Delimiters_LR l r # opts2')) = (l, r) \<and>
         New_config_LR X (opts1' @ Delimiters_LR l r # opts2') =
           New_config_LR X (opts1' @ opts2') \<and>
         map_sum id (Handle X) (New_LR X (opts1' @ Delimiters_LR l r # opts2')) =
           map_sum id (Handle X) (New_LR X (opts1' @ opts2')) \<and>
         map_sum id (HandleStaticWithData X) (New_LR X (opts1' @ Delimiters_LR l r # opts2')) =
           map_sum id (HandleStaticWithData X) (New_LR X (opts1' @ opts2'))"
proof -
  note r = resolve_Delimiters [OF assms(1), of X opts1]
  note r' = resolve_Delimiters_LR [OF assms(2), of X opts1']
  have c: "New_config X (opts1 @ Delimiters l r # opts2) = New_config X (opts1 @ opts2)"
    by (simp add: New_config_def Let_def r engineConfig_def split: sum.splits)
  have c': "New_config_LR X (opts1' @ Delimiters_LR l r # opts2') =
            New_config_LR X (opts1' @ opts2')"
    by (simp add: New_config_LR_def Let_def r' engineConfig_LR_def split: sum.splits)
  have n: "New X (opts1 @ Delimiters l r # opts2) = New X (opts1 @ opts2)"
    by (auto simp: New_def New_renderer_def c r split: sum.splits intro!: handler_fields)
  have h: "map_sum id (Handle X) (New_LR X (opts1' @ Delimiters_LR l r # opts2')) =
           map_sum id (Handle X) (New_LR X (opts1' @ opts2'))"
    by (auto simp: New_LR_def c' r' split: sum.splits intro!: Handle_fields)
  have s: "map_sum id (HandleStaticWithData X) (New_LR X (opts1' @ Delimiters_LR l r # opts2')) =
           map_sum id (HandleStaticWithData X) (New_LR X (opts1' @ opts2'))"
    by (auto simp: New_LR_def c' r' split: sum.splits intro!: HandleStaticWithData_fields)
  show ?thesis
    using c c' n h s by (simp add: r r')
qed


theorem delimiters_not_passed_witness:
  "delims (resolve (testExt True [''a.tmpl''])
             ([Layout ''app''] @ Delimiters ''<<'' ''>>'' # [Extension ''tmpl''])) = (''<<'', ''>>'') \<and>
   New_config (testExt True [''a.tmpl''])
     ([Layout ''app''] @ Delimiters ''<<'' ''>>'' # [Extension ''tmpl'']) =
   New_config (testExt True [''a.tmpl'']) ([Layout ''app''] @ [Extension ''tmpl'']) \<and>
   New (testExt True [''a.tmpl''])
     ([Layout ''app''] @ Delimiters ''<<'' ''>>'' # [Extension ''tmpl'']) =
   New (testExt True [''a.tmpl'']) ([Layout ''app''] @ [Extension ''tmpl'']) \<and>
   New_config_LR (testExt True [''a.tmpl''])
     ([Layout_LR ''app''] @ Delimiters_LR ''<<'' ''>>'' # [Extension_LR ''tmpl'']) =
   New_config_LR (testExt True [''a.tmpl'']) ([Layout_LR ''app''] @ [Extension_LR ''tmpl''])"
proof -
  have h: "\<forall>opt\<in>set [Extension ''tmpl''].
             \<forall>lr :: (string, nat, unit) renderer.
               opt (lr\<lparr>delims := (''<<'', ''>>'')\<rparr>) = (opt lr)\<lparr>delims := (''<<'', ''>>'')\<rparr>"
    by (simp add: Extension_def)
  have h': "\<forall>opt\<in>set [Extension_LR ''tmpl''].
             \<forall>d :: (string, nat, unit) LayoutRenderer.
               opt (d\<lparr>delims_LR := (''<<'', ''>>'')\<rparr>) = (opt d)\<lparr>delims_LR := (''<<'', ''>>'')\<rparr>"
    by (simp add: Extension_LR_def)
  show ?thesis
    using delimiters_not_passed [OF h h', where X = "testExt True [''a.tmpl'']"
        and ?opts1.0 = "[Layout ''app'']" and opts1' = "[Layout_LR ''app'']"]
    by blast
qed

section \<open>What the code does where it departs from the specification\<close>

lemma viewHandlerError_Some_dom:
  "fmdom (viewHandlerError X lr viewData (Some e)) \<noteq> {||}"
  by (simp add: viewHandlerError_def split: option.splits)

lemma assignInto_None_error:
  "assignInto None (viewHandlerError X lr viewData (Some e)) = Inl NilMapAssignment"
  using viewHandlerError_Some_dom [of X lr viewData e] by (simp add: assignInto_def)

lemma Handle_data_constData:
  "Handle_data X (lr\<lparr>defaultHandler := Some (constData (Some dd) None)\<rparr>)
     (constData (Some vd) None) w = Inr (Some (vd ++\<^sub>f dd), w)"
  by (simp add: Handle_data_def afterDefault_def constData_def defaultHandlerError_def
      viewHandlerError_def assignAll_def assignInto_def)

lemma resolve_LR_DefaultHandler:
  "resolve_LR X [DefaultHandler h] = (resolve_LR X [])\<lparr>defaultHandler := h\<rparr>"
  by (simp add: resolve_LR_def DefaultHandler_def Let_def)

text \<open>
  Claim C1, evaluated on the code. In \<^verbatim>\<open>Handle\<close> the last loop assigns the entries of
  \<^verbatim>\<open>viewData\<close>, which holds the default handler's output, onto the view handler's
  \<^verbatim>\<open>data\<close>. When neither handler fails, the context passed to the engine is therefore
  the view handler's map overwritten by the default handler's map: on a key that both
  return, the default handler's value is the one the engine sees. With \<^verbatim>\<open>title\<close> set
  to \<^verbatim>\<open>default\<close> by the default handler and to \<^verbatim>\<open>view\<close> by the view handler, the
  context holds \<^verbatim>\<open>default\<close>.
\<close>

theorem Handle_default_data_wins:
  "Handle_data X (lr\<lparr>defaultHandler := Some (constData (Some dd) None)\<rparr>)
     (constData (Some vd) None) w = Inr (Some (vd ++\<^sub>f dd), w) \<and>
   fmlookup (vd ++\<^sub>f dd) k = (if k |\<in>| fmdom dd then fmlookup dd k else fmlookup vd k) \<and>
   map_sum id (\<lambda>(data, w). map_option (\<lambda>ctx. fmlookup ctx ''title'') data)
     (Handle_data (testExt True [])
        (resolve_LR (testExt True [])
           [DefaultHandler (Some (constData (Some (fmap_of_list [(''title'', VStr ''default'')])) None))])
        (constData (Some (fmap_of_list [(''title'', VStr ''view'')])) None) w0) =
   Inr (Some (Some (VStr ''default'')))"
  by (simp add: Handle_data_constData resolve_LR_DefaultHandler)

lemma Handle_nil_data_error:
  "Handle X lr view (constData None (Some e)) w = Inl NilMapAssignment"
  by (simp add: Handle_def Handle_data_def constData_def assignInto_None_error
      split: prod.splits)

text \<open>
  Claim C6, evaluated on the code. When the view handler returns a nil map together with
  an error, \<^verbatim>\<open>Handle\<close> stores the error key in \<^verbatim>\<open>viewData\<close> and then assigns it into
  the nil \<^verbatim>\<open>data\<close>: the handler panics before the engine is called and writes nothing.
  This holds for every renderer, view, error and request, and in particular for the
  renderer that \<^verbatim>\<open>New\<close> returns with no options.
\<close>

theorem Handle_nil_map_panics:
  "Handle X lr view (constData None (Some e)) w = Inl NilMapAssignment \<and>
   map_sum id (\<lambda>lr. Handle (testExt True []) lr ''home''
                       (constData None (Some (errors_New ''boom''))) w0)
     (New_LR (testExt True []) []) = Inr (Inl NilMapAssignment)"
  by (simp add: Handle_nil_data_error New_LR_def New_config_LR_def Let_def testExt_def
      split: sum.splits)

lemma Sprintf_noargs_plain: "CHR ''%'' \<notin> set s \<Longrightarrow> Sprintf_noargs s = s"
  by (induction s rule: Sprintf_noargs.induct) auto

lemma render_error:
  "e w 200 view data = (Some err, w') \<Longrightarrow>
   renderView X (Some e) msg view data w = Inr (w'\<lparr>body := body w' @ fmt_Sprintf X msg\<rparr>)"
  by (simp add: renderView_def Fprintf_def)

text \<open>
  Claim C7, evaluated on the code. On a render error both handlers write the fallback
  message with \<^verbatim>\<open>fmt.Fprintf(w, lr.renderError)\<close>, so the message is read as a format.
  With the fallback message \<^verbatim>\<open>Oops 100%\<close>, an engine that fails without writing, and
  nothing written before, the response body is \<^verbatim>\<open>Oops 100%!(NOVERB)\<close>, not the
  configured message.
\<close>

theorem fallback_is_format_string:
  "map_sum id (\<lambda>h. map_sum id body (h ''home'' [] w0))
     (New (testExt False []) [RenderError ''Oops 100%'']) = Inr (Inr ''Oops 100%!(NOVERB)'') \<and>
   map_sum id (\<lambda>lr. map_sum id body (Handle (testExt False []) lr ''home'' StaticView w0))
     (New_LR (testExt False []) [RenderError_LR ''Oops 100%'']) = Inr (Inr ''Oops 100%!(NOVERB)'')"
  by (simp add: New_def New_renderer_def New_config_def New_LR_def New_config_LR_def Let_def
      testExt_def resolve_def resolve_LR_def defaults_def defaults_LR_def RenderError_def
      RenderError_LR_def handler_def viewData_of_def collect_def storeErrors_def renderView_def
      failingEngine_def Fprintf_def w0_def Handle_def Handle_data_def afterDefault_def
      StaticView_def viewHandlerError_def assignInto_def)

lemma New_config_Funcs:
  "map_sum id Funcs (New_config X opts) = map_sum id (\<lambda>cfg. sprig_FuncMap X) (New_config X opts)"
  by (simp add: New_config_def Let_def engineConfig_def split: sum.splits)

lemma New_config_LR_Funcs:
  "map_sum id Funcs (New_config_LR X opts) =
     map_sum id (\<lambda>cfg. sprig_FuncMap X) (New_config_LR X opts)"
  by (simp add: New_config_LR_def Let_def engineConfig_LR_def split: sum.splits)

lemma resolve_AddFuncs:
  "funcs (resolve X (opts @ [AddFuncs (Some m)])) = Some (m ++\<^sub>f sprig_FuncMap X)"
  by (simp add: resolve_def applyOpts_append AddFuncs_def allFuncs_def assignAll_def)

lemma resolve_LR_AddFuncs:
  "funcs_LR (resolve_LR X (opts @ [AddFuncs_LR (Some m)])) = Some (m ++\<^sub>f sprig_FuncMap X)"
  by (simp add: resolve_LR_def applyOpts_append AddFuncs_LR_def allFuncs_def assignAll_def)

text \<open>
  Claim C3, evaluated on the code. In both files the \<^verbatim>\<open>goview.Config\<close> that \<^verbatim>\<open>New\<close>
  builds carries \<^verbatim>\<open>sprig.FuncMap()\<close> alone as its function table, whatever the options;
  the merged table is only stored in the renderer's \<^verbatim>\<open>funcs\<close> field, and there the
  baseline entries are written after the user's, so on a shared name the baseline
  function is kept. With the user functions \<^verbatim>\<open>shout\<close> and \<^verbatim>\<open>upper\<close>, the engine's
  table has no \<^verbatim>\<open>shout\<close> and the baseline \<^verbatim>\<open>upper\<close>.
\<close>

theorem user_funcs_not_passed:
  "map_sum id Funcs (New_config X opts) =
     map_sum id (\<lambda>cfg. sprig_FuncMap X) (New_config X opts) \<and>
   map_sum id Funcs (New_config_LR X opts') =
     map_sum id (\<lambda>cfg. sprig_FuncMap X) (New_config_LR X opts') \<and>
   funcs (resolve X (opts @ [AddFuncs (Some m)])) = Some (m ++\<^sub>f sprig_FuncMap X) \<and>
   funcs_LR (resolve_LR X (opts' @ [AddFuncs_LR (Some m)])) = Some (m ++\<^sub>f sprig_FuncMap X) \<and>
   fmlookup (m ++\<^sub>f sprig_FuncMap X) k =
     (if k |\<in>| fmdom (sprig_FuncMap X) then fmlookup (sprig_FuncMap X) k else fmlookup m k) \<and>
   map_sum id (\<lambda>cfg. (fmlookup (Funcs cfg) ''shout'', fmlookup (Funcs cfg) ''upper''))
     (New_config (testExt True [])
        [AddFuncs (Some (fmap_of_list [(''shout'', 7), (''upper'', 8)]))]) =
     Inr (None, Some 0) \<and>
   map_option (\<lambda>m. (fmlookup m ''shout'', fmlookup m ''upper''))
     (funcs (resolve (testExt True [])
        ([] @ [AddFuncs (Some (fmap_of_list [(''shout'', 7), (''upper'', 8)]))]))) =
     Some (Some 7, Some 0)"
proof -
  have e: "map_sum id (\<lambda>cfg. (fmlookup (Funcs cfg) ''shout'', fmlookup (Funcs cfg) ''upper''))
     (New_config (testExt True [])
        [AddFuncs (Some (fmap_of_list [(''shout'', 7), (''upper'', 8)]))]) =
     Inr (None, Some 0)"
    by (simp add: New_config_def Let_def engineConfig_def testExt_def)
  have f: "map_option (\<lambda>m. (fmlookup m ''shout'', fmlookup m ''upper''))
     (funcs (resolve (testExt True [])
        ([] @ [AddFuncs (Some (fmap_of_list [(''shout'', 7), (''upper'', 8)]))]))) =
     Some (Some 7, Some 0)"
    unfolding resolve_AddFuncs by (simp add: testExt_def)
  show ?thesis
    using e f
    by (simp only: New_config_Funcs New_config_LR_Funcs resolve_AddFuncs resolve_LR_AddFuncs
        fmlookup_add simp_thms)
qed

section \<open>The handlers of render.go always return\<close>

lemma render_Some_returns: "\<exists>w'. renderView X (Some e) msg view data w = Inr w'"
  by (simp add: renderView_def split: prod.splits option.splits)

lemma New_handler_returns:
  assumes "New X opts = Inr h"
  shows "\<exists>w'. h view dataFuncs w = Inr w'"
proof -
  obtain lr where lr: "New_renderer X opts = Inr lr" and h: "h = handler X lr"
    using assms by (auto simp: New_def split: sum.splits)
  from lr obtain e where "viewEngine lr = Some e"
    by (auto simp: New_renderer_def split: sum.splits)
  then show ?thesis
    using render_Some_returns [of X e]
    by (simp add: h handler_def split: prod.splits)
qed

section \<open>Error classification and the error key\<close>

lemma viewData_of_messages:
  "case runAll (providers lr dataFuncs) w of
     (rs, w') \<Rightarrow>
       viewData_of X lr dataFuncs w =
         (storeErrors lr (lastWriter rs)
            (concat (map (\<lambda>err. case Unwrap err of
                                  Some cause \<Rightarrow> [first X (strings_ToLower X (message cause))]
                                | None \<Rightarrow> [])
                      (failures rs))), w')"
proof -
  have "userMessage (classify X err) =
        (case Unwrap err of
           Some cause \<Rightarrow> [first X (strings_ToLower X (message cause))] | None \<Rightarrow> [])" for err
    by (simp add: classify_def split: option.splits)
  then have "userFacingMessages X rs =
     concat (map (\<lambda>err. case Unwrap err of
                                  Some cause \<Rightarrow> [first X (strings_ToLower X (message cause))]
                                | None \<Rightarrow> []) (failures rs))" for rs
    by (simp add: userFacingMessages_def)
  then show ?thesis
    using collect_runAll [of X lr dataFuncs w]
    by (simp add: viewData_of_def split: prod.splits)
qed

lemma viewHandlerError_lookup:
  "fmlookup (viewHandlerError X d vd0 (Some e)) (errorKey_LR d) =
     Some (VStr (case Unwrap e of
                   Some cause \<Rightarrow>
                     (if notNil vd0 (errorKey_LR d)
                      then verb_s X (fmlookup vd0 (errorKey_LR d)) @ '' '' @
                           first X (strings_ToLower X (message cause))
                      else first X (strings_ToLower X (message cause)))
                 | None \<Rightarrow> defaultError d))"
  by (simp add: viewHandlerError_def split: option.splits)

lemma defaultHandlerError_lookup:
  "fmlookup (defaultHandlerError X d vd0 (Some e)) (errorKey_LR d) =
     Some (VStr (case Unwrap e of
                   Some cause \<Rightarrow> first X (strings_ToLower X (message cause))
                 | None \<Rightarrow> defaultError d))"
  by (simp add: defaultHandlerError_def split: option.splits)

text \<open>\<^verbatim>\<open>viewData\<close> after a default handler that failed.\<close>

lemma afterDefault_failed:
  assumes "defaultHandler d = Some g" and "g w = ((dd, Some e), w1)"
  shows "afterDefault X d w = (assignAll (defaultHandlerError X d fmempty (Some e)) dd, w1)"
  using assms by (simp add: afterDefault_def)

lemma afterDefault_failed_lookup:
  assumes "defaultHandler d = Some g" and "g w = ((dd, Some e), w1)"
  shows "fmlookup (fst (afterDefault X d w)) (errorKey_LR d) =
         (case fmlookup (assignAll fmempty dd) (errorKey_LR d) of
            Some v \<Rightarrow> Some v
          | None \<Rightarrow>
              Some (VStr (case Unwrap e of
                            Some cause \<Rightarrow> first X (strings_ToLower X (message cause))
                          | None \<Rightarrow> defaultError d)))"
proof (cases dd)
  case None
  then show ?thesis
    using afterDefault_failed [OF assms, of X] defaultHandlerError_lookup [of X d fmempty e]
    by (simp add: assignAll_def)
next
  case (Some m)
  then show ?thesis
    using afterDefault_failed [OF assms, of X] defaultHandlerError_lookup [of X d fmempty e]
    by (auto simp: assignAll_def fmlookup_dom_iff split: option.splits)
qed

text \<open>The context that reaches the engine, at the error key.\<close>

lemma contextAt_view_error:
  assumes "afterDefault X d w = (vd0, w1)" and "f w1 = ((data, Some e), w2)"
    and "Handle_data X d f w = Inr r"
  shows "contextAt (errorKey_LR d) (Handle_data X d f w) =
         fmlookup (viewHandlerError X d vd0 (Some e)) (errorKey_LR d)"
proof (cases data)
  case None
  with assms show ?thesis
    by (simp add: Handle_data_def assignInto_None_error)
next
  case (Some m)
  have "errorKey_LR d |\<in>| fmdom (viewHandlerError X d vd0 (Some e))"
    using viewHandlerError_lookup [of X d vd0 e] by (simp add: fmdomI)
  with Some assms(1,2) show ?thesis
    by (simp add: Handle_data_def assignInto_def contextAt_def)
qed

lemma contextAt_no_view_error:
  assumes "afterDefault X d w = (vd0, w1)" and "f w1 = ((data, None), w2)"
    and "Handle_data X d f w = Inr r" and "fmlookup vd0 k = Some v"
  shows "contextAt k (Handle_data X d f w) = Some v"
proof (cases data)
  case None
  from assms(4) have "fmdom vd0 \<noteq> {||}"
    by (auto dest: fmdomI)
  with None assms(1-3) show ?thesis
    by (simp add: Handle_data_def viewHandlerError_def assignInto_def)
next
  case (Some m)
  from assms(4) have "k |\<in>| fmdom vd0"
    by (simp add: fmdomI)
  with Some assms(1,2,4) show ?thesis
    by (simp add: Handle_data_def viewHandlerError_def assignInto_def contextAt_def)
qed

text \<open>
  Claim C4, amended. An error that unwraps to a cause is shown as the cause's message
  with every rune lower-cased and then the first rune upper-cased. In the handler of
  render.go the list stored at the error key consists of exactly these strings, one for
  each failure that unwraps, in order, and a failure that does not unwrap adds no entry.
  In \<^verbatim>\<open>Handle\<close>, whenever the handler reaches the render call, the context passed to the
  engine holds at the error key: after a view handler error that unwraps, that string,
  behind the earlier value of the error key and a space when \<^verbatim>\<open>viewData\<close> already held
  a non-nil one, so that after a failure of both handlers the two texts stand side by
  side; after a view handler error that does not unwrap, the default error message,
  whatever the error key held before; and, when only the default handler fails and its
  own map has no entry at the error key, the string for an error that unwraps and the
  default error message for one that does not.
\<close>

theorem error_classification:
  "(case runAll (providers lr dataFuncs) w of
     (rs, w') \<Rightarrow>
       viewData_of X lr dataFuncs w =
         (storeErrors lr (lastWriter rs)
            (concat (map (\<lambda>err. case Unwrap err of
                                  Some cause \<Rightarrow> [first X (strings_ToLower X (message cause))]
                                | None \<Rightarrow> [])
                      (failures rs))), w')) \<and>
   (afterDefault X d w = (vd0, w1) \<and> f w1 = ((data, Some e), w2) \<and>
    Handle_data X d f w = Inr r \<longrightarrow>
      contextAt (errorKey_LR d) (Handle_data X d f w) =
        Some (VStr (case Unwrap e of
                      Some cause \<Rightarrow>
                        (if notNil vd0 (errorKey_LR d)
                         then verb_s X (fmlookup vd0 (errorKey_LR d)) @ '' '' @
                              first X (strings_ToLower X (message cause))
                         else first X (strings_ToLower X (message cause)))
                    | None \<Rightarrow> defaultError d))) \<and>
   (defaultHandler d = Some g \<and> g w = ((dd, Some e'), w1) \<and>
    errorKey_LR d |\<notin>| fmdom (assignAll fmempty dd) \<and>
    f w1 = ((data, Some e), w2) \<and> Unwrap e = Some cause \<and>
    Handle_data X d f w = Inr r \<longrightarrow>
      contextAt (errorKey_LR d) (Handle_data X d f w) =
        Some (VStr ((case Unwrap e' of
                       Some cause' \<Rightarrow> first X (strings_ToLower X (message cause'))
                     | None \<Rightarrow> defaultError d) @ '' '' @
                    first X (strings_ToLower X (message cause))))) \<and>
   (defaultHandler d = Some g \<and> g w = ((dd, Some e'), w1) \<and>
    errorKey_LR d |\<notin>| fmdom (assignAll fmempty dd) \<and>
    f w1 = ((data, None), w2) \<and> Handle_data X d f w = Inr r \<longrightarrow>
      contextAt (errorKey_LR d) (Handle_data X d f w) =
        Some (VStr (case Unwrap e' of
                      Some cause' \<Rightarrow> first X (strings_ToLower X (message cause'))
                    | None \<Rightarrow> defaultError d))) \<and>
   first X (strings_ToLower X s) =
     (case s of [] \<Rightarrow> [] | c # cs \<Rightarrow>
        unicode_ToUpper X (unicode_ToLower X c) # map (unicode_ToLower X) cs)"
proof -
  let ?k = "errorKey_LR d"
  let ?D = "case Unwrap e' of
              Some cause' \<Rightarrow> first X (strings_ToLower X (message cause'))
            | None \<Rightarrow> defaultError d"
  have a: "afterDefault X d w = (vd0, w1) \<and> f w1 = ((data, Some e), w2) \<and>
    Handle_data X d f w = Inr r \<longrightarrow>
      contextAt ?k (Handle_data X d f w) =
        Some (VStr (case Unwrap e of
                      Some cause \<Rightarrow>
                        (if notNil vd0 ?k
                         then verb_s X (fmlookup vd0 ?k) @ '' '' @
                              first X (strings_ToLower X (message cause))
                         else first X (strings_ToLower X (message cause)))
                    | None \<Rightarrow> defaultError d))"
    using contextAt_view_error [where X = X and d = d and w = w and f = f and e = e
        and ?vd0.0 = vd0 and ?w1.0 = w1 and data = data and ?w2.0 = w2 and r = r]
      viewHandlerError_lookup [where X = X and d = d and e = e and ?vd0.0 = vd0]
    by simp
  have l: "fmlookup (fst (afterDefault X d w)) ?k = Some (VStr ?D)"
    if "defaultHandler d = Some g" "g w = ((dd, Some e'), w1)"
      "?k |\<notin>| fmdom (assignAll fmempty dd)"
    using afterDefault_failed_lookup [OF that(1,2), of X] that(3)
    by (auto simp: fmlookup_dom_iff split: option.splits)
  have ad: "afterDefault X d w = (fst (afterDefault X d w), w1)"
    if "defaultHandler d = Some g" "g w = ((dd, Some e'), w1)"
    using afterDefault_failed [OF that, of X] by simp
  have b: "defaultHandler d = Some g \<and> g w = ((dd, Some e'), w1) \<and>
    ?k |\<notin>| fmdom (assignAll fmempty dd) \<and>
    f w1 = ((data, Some e), w2) \<and> Unwrap e = Some cause \<and>
    Handle_data X d f w = Inr r \<longrightarrow>
      contextAt ?k (Handle_data X d f w) =
        Some (VStr (?D @ '' '' @ first X (strings_ToLower X (message cause))))"
  proof (intro impI, elim conjE)
    assume h: "defaultHandler d = Some g" "g w = ((dd, Some e'), w1)"
      "?k |\<notin>| fmdom (assignAll fmempty dd)" "f w1 = ((data, Some e), w2)"
      "Unwrap e = Some cause" "Handle_data X d f w = Inr r"
    have "contextAt ?k (Handle_data X d f w) =
          fmlookup (viewHandlerError X d (fst (afterDefault X d w)) (Some e)) ?k"
      using contextAt_view_error [OF ad [OF h(1,2)] h(4) h(6)] .
    then show "contextAt ?k (Handle_data X d f w) =
        Some (VStr (?D @ '' '' @ first X (strings_ToLower X (message cause))))"
      using viewHandlerError_lookup [of X d "fst (afterDefault X d w)" e] l [OF h(1-3)] h(5)
      by (simp add: notNil_def verb_s_def)
  qed
  have c: "defaultHandler d = Some g \<and> g w = ((dd, Some e'), w1) \<and>
    ?k |\<notin>| fmdom (assignAll fmempty dd) \<and>
    f w1 = ((data, None), w2) \<and> Handle_data X d f w = Inr r \<longrightarrow>
      contextAt ?k (Handle_data X d f w) = Some (VStr ?D)"
  proof (intro impI, elim conjE)
    assume h: "defaultHandler d = Some g" "g w = ((dd, Some e'), w1)"
      "?k |\<notin>| fmdom (assignAll fmempty dd)" "f w1 = ((data, None), w2)"
      "Handle_data X d f w = Inr r"
    show "contextAt ?k (Handle_data X d f w) = Some (VStr ?D)"
      using contextAt_no_view_error [OF ad [OF h(1,2)] h(4) h(5) l [OF h(1-3)]] .
  qed
  show ?thesis
    using viewData_of_messages [where X = X and lr = lr and dataFuncs = dataFuncs and w = w]
      a b c first_ToLower [where X = X and s = s]
    by blast
qed

text \<open>
  Claim C4 as stated fails on \<^verbatim>\<open>Handle\<close>. When the default handler and the view handler
  both fail with errors that wrap \<^verbatim>\<open>first problem\<close> and \<^verbatim>\<open>second problem\<close>, the error
  key holds \<^verbatim>\<open>First problem Second problem\<close>, which is not the string of the view
  handler's cause. When the view handler fails instead with an error that does not
  unwrap, the error key holds \<^verbatim>\<open>Internal Error\<close> and the default handler's
  \<^verbatim>\<open>First problem\<close> is gone.
\<close>

theorem error_key_concatenated_counterexample:
  "contextAt ''error''
     (Handle_data (testExt True [])
        (resolve_LR (testExt True [])
           [DefaultHandler (Some (constData None
              (Some (fmt_Errorf_w ''load: '' (errors_New ''first problem'')))))])
        (constData (Some fmempty)
           (Some (fmt_Errorf_w ''save: '' (errors_New ''second problem'')))) w0) =
     Some (VStr ''First problem Second problem'') \<and>
   first (testExt True []) (strings_ToLower (testExt True [])
     (message (errors_New ''second problem''))) = ''Second problem'' \<and>
   ''First problem Second problem'' \<noteq> ''Second problem'' \<and>
   contextAt ''error''
     (Handle_data (testExt True [])
        (resolve_LR (testExt True [])
           [DefaultHandler (Some (constData None
              (Some (fmt_Errorf_w ''load: '' (errors_New ''first problem'')))))])
        (constData (Some fmempty) (Some (errors_New ''db down''))) w0) =
     Some (VStr ''Internal Error'') \<and>
   first (testExt True []) (strings_ToLower (testExt True [])
     (message (errors_New ''first problem''))) = ''First problem'' \<and>
   ''Internal Error'' \<noteq> ''First problem''"
  by (simp add: eval_defs contextAt_def Handle_data_def viewHandlerError_def
      defaultHandlerError_def assignInto_def notNil_def verb_s_def)

text \<open>
  With the letters of ASCII: wrapping the cause \<^verbatim>\<open>a wrapped message\<close> shows
  \<^verbatim>\<open>A wrapped message\<close> in both handlers, an error without a cause shows
  \<^verbatim>\<open>Internal Error\<close> in \<^verbatim>\<open>Handle\<close>, for the view handler and for the default handler,
  and two wrapped errors in \<^verbatim>\<open>Handle\<close> show both messages with a space between them.
\<close>

theorem error_classification_witness:
  "fst (viewData_of (testExt True []) (resolve (testExt True []) [])
          [constData (Some fmempty)
             (Some (fmt_Errorf_w ''error in dashboard, '' (errors_New ''a wrapped message'')))]
          w0) = fmupd ''errors'' (VStrs [''A wrapped message'']) fmempty \<and>
   contextAt ''error''
     (Handle_data (testExt True []) (resolve_LR (testExt True []) [])
        (constData (Some fmempty)
           (Some (fmt_Errorf_w ''error in dashboard, '' (errors_New ''a wrapped message''))))
        w0) = Some (VStr ''A wrapped message'') \<and>
   contextAt ''error''
     (Handle_data (testExt True []) (resolve_LR (testExt True []) [])
        (constData (Some fmempty) (Some (errors_New ''db down''))) w0) =
     Some (VStr ''Internal Error'') \<and>
   contextAt ''error''
     (Handle_data (testExt True [])
        (resolve_LR (testExt True [])
           [DefaultHandler (Some (constData None
              (Some (fmt_Errorf_w ''load: '' (errors_New ''first problem'')))))])
        (constData (Some fmempty)
           (Some (fmt_Errorf_w ''save: '' (errors_New ''second problem'')))) w0) =
     Some (VStr ''First problem Second problem'') \<and>
   contextAt ''error''
     (Handle_data (testExt True [])
        (resolve_LR (testExt True [])
           [DefaultHandler (Some (constData None (Some (errors_New ''db down''))))])
        (constData (Some fmempty) None) w0) = Some (VStr ''Internal Error'')"
proof -
  let ?T = "testExt True []"
  let ?wrapped = "fmt_Errorf_w ''error in dashboard, '' (errors_New ''a wrapped message'')"
  let ?int = "errors_New ''db down''"
  let ?e1 = "fmt_Errorf_w ''load: '' (errors_New ''first problem'')"
  let ?e2 = "fmt_Errorf_w ''save: '' (errors_New ''second problem'')"
  let ?g = "constData None (Some ?int) :: (string, unit) Data"
  let ?g1 = "constData None (Some ?e1) :: (string, unit) Data"
  let ?ok = "constData (Some fmempty) None :: (string, unit) Data"
  let ?plain = "resolve_LR ?T [] :: (string, nat, unit) LayoutRenderer"
  have r1: "Handle_data ?T ?plain (constData (Some fmempty) (Some ?wrapped)) w0 =
            Inr (Some (fmupd ''error'' (VStr ''A wrapped message'') fmempty), w0)"
    by (simp add: eval_defs Handle_data_def viewHandlerError_def assignInto_def notNil_def)
  have r2: "Handle_data ?T ?plain (constData (Some fmempty) (Some ?int)) w0 =
            Inr (Some (fmupd ''error'' (VStr ''Internal Error'') fmempty), w0)"
    by (simp add: eval_defs Handle_data_def viewHandlerError_def assignInto_def notNil_def)
  have r3: "Handle_data ?T (resolve_LR ?T [DefaultHandler (Some ?g1)])
              (constData (Some fmempty) (Some ?e2)) w0 =
            Inr (Some (fmupd ''error'' (VStr ''First problem Second problem'') fmempty), w0)"
    by (simp add: eval_defs Handle_data_def viewHandlerError_def defaultHandlerError_def
        assignInto_def notNil_def verb_s_def)
  have r4: "Handle_data ?T (resolve_LR ?T [DefaultHandler (Some ?g)]) ?ok w0 =
            Inr (Some (fmupd ''error'' (VStr ''Internal Error'') fmempty), w0)"
    by (simp add: eval_defs Handle_data_def viewHandlerError_def defaultHandlerError_def
        assignInto_def)
  note t1 = error_classification
    [where X = ?T and lr = "resolve ?T []" and w = w0 and d = ?plain
       and dataFuncs = "[constData (Some fmempty) (Some ?wrapped)]"
       and f = "constData (Some fmempty) (Some ?wrapped)" and ?vd0.0 = fmempty
       and ?w1.0 = w0 and ?w2.0 = w0 and data = "Some fmempty" and e = ?wrapped
       and r = "(Some (fmupd ''error'' (VStr ''A wrapped message'') fmempty), w0)"]
  note t2 = error_classification
    [where X = ?T and w = w0 and d = ?plain
       and f = "constData (Some fmempty) (Some ?int)" and ?vd0.0 = fmempty
       and ?w1.0 = w0 and ?w2.0 = w0 and data = "Some fmempty" and e = ?int
       and r = "(Some (fmupd ''error'' (VStr ''Internal Error'') fmempty), w0)"]
  note t3 = error_classification
    [where X = ?T and w = w0 and d = "resolve_LR ?T [DefaultHandler (Some ?g1)]"
       and g = ?g1 and dd = None and e' = ?e1 and ?w1.0 = w0
       and f = "constData (Some fmempty) (Some ?e2)" and data = "Some fmempty" and e = ?e2
       and cause = "errors_New ''second problem''" and ?w2.0 = w0
       and r = "(Some (fmupd ''error'' (VStr ''First problem Second problem'') fmempty), w0)"]
  note t4 = error_classification
    [where X = ?T and w = w0 and d = "resolve_LR ?T [DefaultHandler (Some ?g)]"
       and g = ?g and dd = None and e' = ?int and ?w1.0 = w0
       and f = ?ok and data = "Some fmempty" and ?w2.0 = w0
       and r = "(Some (fmupd ''error'' (VStr ''Internal Error'') fmempty), w0)"]
  have a: "fst (viewData_of ?T (resolve ?T []) [constData (Some fmempty) (Some ?wrapped)] w0) =
           fmupd ''errors'' (VStrs [''A wrapped message'']) fmempty"
    using t1 by (simp add: eval_defs providers_def storeErrors_def lastWriter_def failures_def
        List.map_filter_simps)
  have b: "contextAt ''error'' (Handle_data ?T ?plain (constData (Some fmempty) (Some ?wrapped)) w0)
           = Some (VStr ''A wrapped message'')"
    using t1 r1 by (simp add: eval_defs notNil_def)
  have c: "contextAt ''error'' (Handle_data ?T ?plain (constData (Some fmempty) (Some ?int)) w0)
           = Some (VStr ''Internal Error'')"
    using t2 r2 by (simp add: eval_defs notNil_def)
  have d: "contextAt ''error''
             (Handle_data ?T (resolve_LR ?T [DefaultHandler (Some ?g1)])
                (constData (Some fmempty) (Some ?e2)) w0)
           = Some (VStr ''First problem Second problem'')"
    using t3 r3 by (simp add: eval_defs)
  have e: "contextAt ''error'' (Handle_data ?T (resolve_LR ?T [DefaultHandler (Some ?g)]) ?ok w0)
           = Some (VStr ''Internal Error'')"
    using t4 r4 by (simp add: eval_defs)
  show ?thesis
    using a b c d e by blast
qed

text \<open>
  Claim C5 as stated fails on the handler of render.go: a provider that returns an error
  without a cause has failed, and the context passed to the engine has no entry at the
  error key.
\<close>

theorem error_key_absent_counterexample:
  "failures (fst (runAll (providers (resolve (testExt True []) [])
       [constData (Some fmempty) (Some (errors_New ''db down''))]) w0)) =
     [errors_New ''db down''] \<and>
   fmlookup (fst (viewData_of (testExt True []) (resolve (testExt True []) [])
       [constData (Some fmempty) (Some (errors_New ''db down''))] w0))
     (errorKey (resolve (testExt True []) [])) = None"
  by (simp add: eval_defs providers_def failures_def List.map_filter_simps viewData_of_def
      collect_def storeErrors_def appendError_def)

lemma userFacingCount_pos: "0 < userFacingCount X rs \<longleftrightarrow> userFacingMessages X rs \<noteq> []"
  unfolding userFacingMessages_length [symmetric] by simp

lemma userFacingCount_zero: "userFacingCount X rs = 0 \<longleftrightarrow> userFacingMessages X rs = []"
  unfolding userFacingMessages_length [symmetric] by simp

lemma contextAt_default_failed:
  assumes "defaultHandler d = Some g" and "g w = ((dd, Some e), w1)"
    and "fmlookup (assignAll fmempty dd) (errorKey_LR d) \<noteq> Some VNil"
    and "f w1 = ((data, err), w2)" and "Handle_data X d f w = Inr r"
  shows "\<exists>v. contextAt (errorKey_LR d) (Handle_data X d f w) = Some v \<and> v \<noteq> VNil"
proof -
  let ?k = "errorKey_LR d"
  have ad: "afterDefault X d w = (fst (afterDefault X d w), w1)"
    using afterDefault_failed [OF assms(1,2), of X] by simp
  obtain v where v: "fmlookup (fst (afterDefault X d w)) ?k = Some v" "v \<noteq> VNil"
    using afterDefault_failed_lookup [OF assms(1,2), of X] assms(3)
    by (auto split: option.splits)
  show ?thesis
  proof (cases err)
    case None
    with assms(4) have "f w1 = ((data, None), w2)" by simp
    from contextAt_no_view_error [OF ad this assms(5) v(1)] v(2) show ?thesis by simp
  next
    case (Some e2)
    with assms(4) have "f w1 = ((data, Some e2), w2)" by simp
    from contextAt_view_error [OF ad this assms(5)]
      viewHandlerError_lookup [of X d "fst (afterDefault X d w)" e2]
    show ?thesis by simp
  qed
qed

text \<open>
  Claim C5, amended. In the handler of render.go the context passed to the engine holds
  a non-empty list of strings at the error key whenever at least one provider failed
  with an error that unwraps; when no failure unwraps, the handler adds nothing to the
  providers' merged output. In \<^verbatim>\<open>Handle\<close>, whenever the handler reaches the render call,
  the context passed to the engine holds a non-nil value at the error key after any
  error of the view handler (a string then), and after any error of the default handler
  whose own map does not hold the nil value at the error key.
\<close>

theorem error_key_invariant:
  "(case runAll (providers lr dataFuncs) w of
      (rs, w') \<Rightarrow>
        (0 < userFacingCount X rs \<longrightarrow>
           userFacingMessages X rs \<noteq> [] \<and>
           fmlookup (fst (viewData_of X lr dataFuncs w)) (errorKey lr) =
             Some (VStrs (userFacingMessages X rs))) \<and>
        (userFacingCount X rs = 0 \<longrightarrow> fst (viewData_of X lr dataFuncs w) = lastWriter rs)) \<and>
   (afterDefault X d w = (vd0, w1) \<and> f w1 = ((data, Some e), w2) \<and>
    Handle_data X d f w = Inr r \<longrightarrow>
      (\<exists>s. contextAt (errorKey_LR d) (Handle_data X d f w) = Some (VStr s))) \<and>
   (defaultHandler d = Some g \<and> g w = ((dd, Some e), w1) \<and>
    fmlookup (assignAll fmempty dd) (errorKey_LR d) \<noteq> Some VNil \<and>
    f w1 = ((data, err), w2) \<and> Handle_data X d f w = Inr r \<longrightarrow>
      (\<exists>v. contextAt (errorKey_LR d) (Handle_data X d f w) = Some v \<and> v \<noteq> VNil))"
proof -
  have a: "case runAll (providers lr dataFuncs) w of
      (rs, w') \<Rightarrow>
        (0 < userFacingCount X rs \<longrightarrow>
           userFacingMessages X rs \<noteq> [] \<and>
           fmlookup (fst (viewData_of X lr dataFuncs w)) (errorKey lr) =
             Some (VStrs (userFacingMessages X rs))) \<and>
        (userFacingCount X rs = 0 \<longrightarrow> fst (viewData_of X lr dataFuncs w) = lastWriter rs)"
    using collect_runAll [of X lr dataFuncs w]
    by (auto simp: viewData_of_def storeErrors_def userFacingCount_pos userFacingCount_zero
        split: prod.splits)
  have b: "afterDefault X d w = (vd0, w1) \<and> f w1 = ((data, Some e), w2) \<and>
    Handle_data X d f w = Inr r \<longrightarrow>
      (\<exists>s. contextAt (errorKey_LR d) (Handle_data X d f w) = Some (VStr s))"
    using contextAt_view_error [where X = X and d = d and w = w and f = f and e = e
        and ?vd0.0 = vd0 and ?w1.0 = w1 and data = data and ?w2.0 = w2 and r = r]
      viewHandlerError_lookup [where X = X and d = d and e = e and ?vd0.0 = vd0]
    by simp
  show ?thesis
    using a b contextAt_default_failed [where X = X and d = d and g = g and w = w and dd = dd
        and e = e and ?w1.0 = w1 and f = f and data = data and err = err and ?w2.0 = w2
        and r = r]
    by blast
qed

text \<open>
  A wrapped error in render.go, an internal one in render.go, an internal error of the
  view handler in \<^verbatim>\<open>Handle\<close>, and a failing default handler of \<^verbatim>\<open>Handle\<close> whose own map
  has a string at the error key.
\<close>

theorem error_key_invariant_witness:
  "fmlookup (fst (viewData_of (testExt True []) (resolve (testExt True []) [])
       [constData (Some fmempty)
          (Some (fmt_Errorf_w ''error in dashboard, '' (errors_New ''a wrapped message'')))] w0))
     ''errors'' = Some (VStrs [''A wrapped message'']) \<and>
   fst (viewData_of (testExt True []) (resolve (testExt True []) [])
       [constData (Some fmempty) (Some (errors_New ''db down''))] w0) = fmempty \<and>
   (\<exists>s. contextAt ''error''
          (Handle_data (testExt True []) (resolve_LR (testExt True []) [])
             (constData (Some fmempty) (Some (errors_New ''db down''))) w0) = Some (VStr s)) \<and>
   (\<exists>v. contextAt ''error''
          (Handle_data (testExt True [])
             (resolve_LR (testExt True [])
                [DefaultHandler (Some (constData
                   (Some (fmap_of_list [(''error'', VStr ''from data'')]))
                   (Some (errors_New ''db down''))))])
             (constData (Some fmempty) None) w0) = Some v \<and> v \<noteq> VNil)"
proof -
  let ?T = "testExt True []"
  let ?wrapped = "fmt_Errorf_w ''error in dashboard, '' (errors_New ''a wrapped message'')"
  let ?int = "errors_New ''db down''"
  let ?dd = "Some (fmap_of_list [(''error'', VStr ''from data'')]) :: string D"
  let ?g = "constData ?dd (Some ?int) :: (string, unit) Data"
  let ?f = "constData (Some fmempty) (Some ?int) :: (string, unit) Data"
  let ?ok = "constData (Some fmempty) None :: (string, unit) Data"
  let ?plain = "resolve_LR ?T [] :: (string, nat, unit) LayoutRenderer"
  let ?over = "resolve_LR ?T [DefaultHandler (Some ?g)]"
  have r2: "Handle_data ?T ?plain ?f w0 =
            Inr (Some (fmupd ''error'' (VStr ''Internal Error'') fmempty), w0)"
    by (simp add: eval_defs Handle_data_def viewHandlerError_def assignInto_def notNil_def)
  have r3: "Handle_data ?T ?over ?ok w0 =
            Inr (Some (fmupd ''error'' (VStr ''from data'') fmempty), w0)"
    by (simp add: eval_defs Handle_data_def viewHandlerError_def defaultHandlerError_def
        assignInto_def)
  note t1 = error_key_invariant
    [where X = ?T and lr = "resolve ?T []" and w = w0
       and dataFuncs = "[constData (Some fmempty) (Some ?wrapped)]"]
  note t2 = error_key_invariant
    [where X = ?T and lr = "resolve ?T []" and w = w0 and dataFuncs = "[?f]"
       and d = ?plain and f = ?f and ?vd0.0 = fmempty and ?w1.0 = w0
       and data = "Some fmempty" and e = ?int and ?w2.0 = w0
       and r = "(Some (fmupd ''error'' (VStr ''Internal Error'') fmempty), w0)"]
  note t3 = error_key_invariant
    [where X = ?T and w = w0 and d = ?over and g = ?g and dd = ?dd and e = ?int
       and ?w1.0 = w0 and f = ?ok and data = "Some fmempty" and err = None and ?w2.0 = w0
       and r = "(Some (fmupd ''error'' (VStr ''from data'') fmempty), w0)"]
  have a: "fmlookup (fst (viewData_of ?T (resolve ?T [])
             [constData (Some fmempty) (Some ?wrapped)] w0)) ''errors'' =
           Some (VStrs [''A wrapped message''])"
    using t1 by (simp add: eval_defs providers_def userFacingCount_def userFacingMessages_def
        failures_def List.map_filter_simps classify_def)
  have b: "fst (viewData_of ?T (resolve ?T []) [?f] w0) = fmempty"
    using t2 by (simp add: eval_defs providers_def userFacingCount_def lastWriter_def
        failures_def List.map_filter_simps classify_def)
  have c: "\<exists>s. contextAt ''error'' (Handle_data ?T ?plain ?f w0) = Some (VStr s)"
    using t2 r2 by (simp add: eval_defs)
  have d: "\<exists>v. contextAt ''error'' (Handle_data ?T ?over ?ok w0) = Some v \<and> v \<noteq> VNil"
    using t3 r3 by (simp add: eval_defs)
  show ?thesis
    using a b c d by blast
qed

end
